theory Spec2Isabelle
  imports Complex_Main "HOL-Library.AList" "HOL-Library.Sublist"
begin

section \<open>Python values used by the Alphavantage price source\<close>

text \<open>
  The value \<open>resp.json()\<close> returns: any JSON document.  A JSON object is decoded to a
  Python dict, kept here as an association list that is read with \<open>map_of\<close>.
\<close>

datatype json =
    JNull
  | JBool bool
  | JNum real
  | JStr string
  | JArr "json list"
  | JObj "(string \<times> json) list"

text \<open>
  The two messages of \<open>AlphavantageApiError\<close>, kept structured instead of formatted:
  \<open>"Invalid response ({}): {}".format(resp.status_code, resp.text)\<close> and
  \<open>"Invalid response: {}".format(data["Error Message"])\<close>.
\<close>

datatype api_message =
    Invalid_response_status int string
  | Invalid_response json

text \<open>
  The exceptions the module raises or lets through.  \<open>AlphavantageApiError\<close> is the
  module's own class; \<open>ValueError\<close> with a message is what \<open>_parse_ticker\<close> raises; the
  others are those of the interpreter and of the libraries the module calls.
\<close>

datatype error =
    ValueError string
  | AlphavantageApiError api_message
  | KeyError string
  | TypeError
  | AttributeError
  | OverflowError
  | JSONDecodeError
  | LibraryError string

text \<open>
  \<open>class AlphavantageApiError(ValueError)\<close>: an \<open>except ValueError\<close> catches the module's
  own errors and the error of the ticker parser alike; what tells them apart is
  \<open>isinstance(e, AlphavantageApiError)\<close>.
\<close>

fun is_AlphavantageApiError :: "error \<Rightarrow> bool" where
  "is_AlphavantageApiError (AlphavantageApiError m) = True"
| "is_AlphavantageApiError e = False"

subsection \<open>The operators \<open>in\<close> and \<open>[]\<close> on a decoded body\<close>

fun str_contains :: "string \<Rightarrow> string \<Rightarrow> bool" where
  "str_contains p [] = (p = [])"
| "str_contains p (c # cs) = (prefix p (c # cs) \<or> str_contains p cs)"

text \<open>
  \<open>key in data\<close> for a string \<open>key\<close>: key membership in a dict, substring test in a
  string, element test in a list, and a \<open>TypeError\<close> for a number, a boolean or \<open>None\<close>.
\<close>

fun py_in :: "string \<Rightarrow> json \<Rightarrow> error + bool" where
  "py_in k (JObj kvs) = Inr (map_of kvs k \<noteq> None)"
| "py_in k (JStr s) = Inr (str_contains k s)"
| "py_in k (JArr xs) = Inr (JStr k \<in> set xs)"
| "py_in k _ = Inl TypeError"

text \<open>
  \<open>data[key]\<close> for a string \<open>key\<close>: the value in a dict or a \<open>KeyError\<close>; a string and a
  list take integer indices only, the other values are not subscriptable.
\<close>

fun py_getitem :: "json \<Rightarrow> string \<Rightarrow> error + json" where
  "py_getitem (JObj kvs) k = (case map_of kvs k of None \<Rightarrow> Inl (KeyError k) | Some v \<Rightarrow> Inr v)"
| "py_getitem _ k = Inl TypeError"

section \<open>The ticker parser\<close>

text \<open>
  A string is the list of its code points, and a \<open>char\<close> is a code point below 256.  The
  class \<open>\w\<close> of a \<open>str\<close> pattern is decided by the Unicode database of the interpreter
  (letters, digits and numeric characters of every script, and the underscore), so the
  parser takes it as a parameter, \<open>word\<close>.
\<close>

definition newline :: char where
  "newline = CHR 0x0A"

definition invalid_ticker :: error where
  "invalid_ticker = ValueError ''Invalid ticker. Use \"price:SYMBOL:BASE\" or \"fx:CCY:BASE\" format.''"

text \<open>The group \<open>(?P<kind>price|fx)\<close> and the colon after it, tried in this order.\<close>

definition match_kind :: "string \<Rightarrow> (string \<times> string) option" where
  "match_kind s =
     (if prefix ''price:'' s then Some (''price'', drop 6 s)
      else if prefix ''fx:'' s then Some (''fx'', drop 3 s)
      else None)"

text \<open>
  \<open>re.match(r"^(?P<kind>price|fx):(?P<symbol>[^:]+):(?P<base>\w+)$", ticker)\<close>:
  after the kind, \<open>[^:]+\<close> takes the characters up to the next colon, which has to be
  there and at least one character away; \<open>\w+\<close> takes the longest run of word
  characters, at least one; and \<open>$\<close> matches at the end of the string or just before a
  newline that is its last character.
\<close>

definition parse_ticker ::
  "(char \<Rightarrow> bool) \<Rightarrow> string \<Rightarrow> error + (string \<times> string \<times> string)" where
  "parse_ticker word ticker =
     (case match_kind ticker of
        None \<Rightarrow> Inl invalid_ticker
      | Some (kind, rest) \<Rightarrow>
          (let symbol = takeWhile (\<lambda>c. c \<noteq> CHR '':'') rest;
               after = dropWhile (\<lambda>c. c \<noteq> CHR '':'') rest
           in if symbol = [] \<or> after = [] then Inl invalid_ticker
              else (let base = takeWhile word (tl after);
                        trail = dropWhile word (tl after)
                    in if base \<noteq> [] \<and> (trail = [] \<or> trail = [newline])
                       then Inr (kind, symbol, base)
                       else Inl invalid_ticker)))"

subsection \<open>The grammar as the specification words it\<close>

text \<open>
  Three colon-delimited fields: the kind is one of the two literal tags, the symbol is a
  non-empty run of non-colon characters, the base is a non-empty token of word
  characters.
\<close>

definition valid_components ::
  "(char \<Rightarrow> bool) \<Rightarrow> string \<Rightarrow> string \<Rightarrow> string \<Rightarrow> bool" where
  "valid_components word kind symbol base =
     ((kind = ''price'' \<or> kind = ''fx'') \<and>
      symbol \<noteq> [] \<and> list_all (\<lambda>c. c \<noteq> CHR '':'') symbol \<and>
      base \<noteq> [] \<and> list_all word base)"

definition ticker_string :: "string \<Rightarrow> string \<Rightarrow> string \<Rightarrow> string" where
  "ticker_string kind symbol base = kind @ '':'' @ symbol @ '':'' @ base"

definition matches_grammar :: "(char \<Rightarrow> bool) \<Rightarrow> string \<Rightarrow> bool" where
  "matches_grammar word s =
     (\<exists>kind symbol base.
        valid_components word kind symbol base \<and> s = ticker_string kind symbol base)"

section \<open>Dates and times\<close>

text \<open>
  A \<open>tzinfo\<close> object: its name and its offset from UTC, in microseconds.
\<close>

datatype tzinfo = TZ (tzname: string) (utcoffset: int)

definition tzutc :: tzinfo where
  "tzutc = TZ ''UTC'' 0"

text \<open>
  A \<open>datetime\<close>: the proleptic Gregorian ordinal of its date (day 1 is 0001-01-01),
  the microseconds since midnight, and the attached zone; a datetime without a zone is
  naive.
\<close>

record datetime =
  ordinal :: int
  usec :: int
  tzinfo :: "tzinfo option"

definition MAXORDINAL :: int where
  "MAXORDINAL = 3652059"

text \<open>
  \<open>t - timedelta(days=n)\<close>: the date moves, the time of day and the zone stay; a date
  outside 0001-01-01 .. 9999-12-31 is an \<open>OverflowError\<close>.
\<close>

definition sub_days :: "datetime \<Rightarrow> int \<Rightarrow> error + datetime" where
  "sub_days t n =
     (if 0 < ordinal t - n \<and> ordinal t - n \<le> MAXORDINAL
      then Inr (t\<lparr>ordinal := ordinal t - n\<rparr>)
      else Inl OverflowError)"

definition wall_usec :: "datetime \<Rightarrow> int" where
  "wall_usec t = ordinal t * 86400000000 + usec t"

text \<open>
  \<open>a < b\<close> on datetimes: two aware datetimes compare as instants, two naive ones by
  their fields, and a naive one against an aware one is a \<open>TypeError\<close>.
\<close>

definition dt_less :: "datetime \<Rightarrow> datetime \<Rightarrow> error + bool" where
  "dt_less a b =
     (case tzinfo a of
        None \<Rightarrow> (case tzinfo b of
                   None \<Rightarrow> Inr (wall_usec a < wall_usec b)
                 | Some zb \<Rightarrow> Inl TypeError)
      | Some za \<Rightarrow> (case tzinfo b of
                   None \<Rightarrow> Inl TypeError
                 | Some zb \<Rightarrow> Inr (wall_usec a - utcoffset za < wall_usec b - utcoffset zb)))"

text \<open>
  The date of an ordinal, as the \<open>datetime\<close> module computes it (\<open>_ord2ymd\<close>):
  400-year, 100-year, 4-year and 1-year cycles, then the month from an estimate that is
  corrected when it is one too high.
\<close>

definition DAYS_IN_MONTH :: "int list" where
  "DAYS_IN_MONTH = [-1, 31, 28, 31, 30, 31, 30, 31, 31, 30, 31, 30, 31]"

definition DAYS_BEFORE_MONTH :: "int list" where
  "DAYS_BEFORE_MONTH = [-1, 0, 31, 59, 90, 120, 151, 181, 212, 243, 273, 304, 334]"

definition ord2ymd :: "int \<Rightarrow> int \<times> int \<times> int" where
  "ord2ymd n =
     (let n0 = n - 1;
          n400 = n0 div 146097; r400 = n0 mod 146097;
          n100 = r400 div 36524; r100 = r400 mod 36524;
          n4 = r100 div 1461; r4 = r100 mod 1461;
          n1 = r4 div 365; r1 = r4 mod 365;
          year = n400 * 400 + 1 + n100 * 100 + n4 * 4 + n1
      in if n1 = 4 \<or> n100 = 4 then (year - 1, 12, 31)
         else (let leapyear = (n1 = 3 \<and> (n4 \<noteq> 24 \<or> n100 = 3));
                   month = (r1 + 50) div 32;
                   preceding = DAYS_BEFORE_MONTH ! nat month + (if month > 2 \<and> leapyear then 1 else 0)
               in if preceding > r1
                  then (year, month - 1,
                        r1 - (preceding - (DAYS_IN_MONTH ! nat (month - 1) +
                                (if month - 1 = 2 \<and> leapyear then 1 else 0))) + 1)
                  else (year, month, r1 - preceding + 1)))"

definition digit :: "int \<Rightarrow> char" where
  "digit d = ''0123456789'' ! nat d"

definition zero_pad2 :: "int \<Rightarrow> string" where
  "zero_pad2 n = [digit (n div 10 mod 10), digit (n mod 10)]"

definition zero_pad4 :: "int \<Rightarrow> string" where
  "zero_pad4 n = [digit (n div 1000 mod 10), digit (n div 100 mod 10),
                  digit (n div 10 mod 10), digit (n mod 10)]"

text \<open>
  The date of an ordinal under the format \<open>%Y-%m-%d\<close>.  The month and the day are on two
  digits; how \<open>%Y\<close> prints a year is left to the C library of the platform (four digits
  with leading zeros on some, no leading zeros below the year 1000 on others), so the
  rendering of the year is a parameter, \<open>year\<close>.
\<close>

definition format_Ymd :: "(int \<Rightarrow> string) \<Rightarrow> int \<Rightarrow> string" where
  "format_Ymd year n =
     (case ord2ymd n of
        (y, m, d) \<Rightarrow> year y @ ''-'' @ zero_pad2 m @ ''-'' @ zero_pad2 d)"

text \<open>
  \<open>time.strftime("%Y-%m-%d")\<close>: the date of the datetime's own fields (no conversion
  between zones).
\<close>

definition strftime_Ymd :: "(int \<Rightarrow> string) \<Rightarrow> datetime \<Rightarrow> string" where
  "strftime_Ymd year t = format_Ymd year (ordinal t)"

section \<open>The world the module runs in\<close>

text \<open>The response object of \<open>requests.get\<close>; \<open>body\<close> is \<open>None\<close> when the text is not JSON.\<close>

record response =
  status_code :: int
  resp_text :: string
  body :: "json option"

datatype log_record =
    LogInfo string
  | LogError string json

text \<open>
  What the module reads and writes besides its arguments: the process environment; the
  HTTP server, answering the \<open>n\<close>-th request of the run; the clock; the library functions
  \<open>tz.gettz\<close>, \<open>dateutil.parser.parse\<close> and \<open>Decimal\<close>, which the module calls on values
  taken from the body; the class \<open>\w\<close> of the regular expression engine and the
  rendering of a year by \<open>strftime\<close>; the requests sent so far (URL and query
  parameters), the seconds slept and the records logged.
\<close>

record 'd world =
  environ :: "string \<Rightarrow> string option"
  server :: "nat \<Rightarrow> string \<Rightarrow> (string \<times> string) list \<Rightarrow> error + response"
  clock :: "int \<times> int"
  gettz :: "json \<Rightarrow> error + tzinfo option"
  parse :: "json \<Rightarrow> error + datetime"
  Decimal :: "json \<Rightarrow> error + 'd"
  word_class :: "char \<Rightarrow> bool"
  strftime_Y :: "int \<Rightarrow> string"
  requests :: "(string \<times> (string \<times> string) list) list"
  slept :: nat
  logged :: "log_record list"

text \<open>\<open>datetime.now(timezone.utc)\<close>: the clock's reading, aware, in UTC.\<close>

definition now_utc :: "'d world \<Rightarrow> datetime" where
  "now_utc w = \<lparr>ordinal = fst (clock w), usec = snd (clock w), tzinfo = Some tzutc\<rparr>"

definition requests_get ::
  "string \<Rightarrow> (string \<times> string) list \<Rightarrow> 'd world \<Rightarrow> (error + response) \<times> 'd world" where
  "requests_get url params w =
     (server w (length (requests w)) url params, w\<lparr>requests := requests w @ [(url, params)]\<rparr>)"

definition sleep :: "nat \<Rightarrow> 'd world \<Rightarrow> 'd world" where
  "sleep n w = w\<lparr>slept := slept w + n\<rparr>"

definition logging :: "log_record \<Rightarrow> 'd world \<Rightarrow> 'd world" where
  "logging r w = w\<lparr>logged := logged w @ [r]\<rparr>"

section \<open>The API client\<close>

definition query_url :: string where
  "query_url = ''https://www.alphavantage.co/query''"

text \<open>
  The two lines the client runs for each request:
  \<open>resp = requests.get(url=..., params=params); data = resp.json()\<close>.
\<close>

definition get_json ::
  "(string \<times> string) list \<Rightarrow> 'd world \<Rightarrow> (error + response \<times> json) \<times> 'd world" where
  "get_json params w =
     (case requests_get query_url params w of
        (Inl e, w') \<Rightarrow> (Inl e, w')
      | (Inr resp, w') \<Rightarrow>
          (case body resp of
             None \<Rightarrow> (Inl JSONDecodeError, w')
           | Some data \<Rightarrow> (Inr (resp, data), w')))"

text \<open>
  The checks on the last response (lines 70 to 78 of \<open>_do_fetch\<close>): first the status
  against \<open>requests.codes.ok\<close>, then the \<open>Error Message\<close> field.
\<close>

definition check_response :: "response \<Rightarrow> json \<Rightarrow> error + json" where
  "check_response resp data =
     (if status_code resp \<noteq> 200
      then Inl (AlphavantageApiError (Invalid_response_status (status_code resp) (resp_text resp)))
      else (case py_in ''Error Message'' data of
              Inl e \<Rightarrow> Inl e
            | Inr False \<Rightarrow> Inr data
            | Inr True \<Rightarrow>
                (case py_getitem data ''Error Message'' of
                   Inl e \<Rightarrow> Inl e
                 | Inr m \<Rightarrow> Inl (AlphavantageApiError (Invalid_response m)))))"

text \<open>
  \<open>_do_fetch(params)\<close>: the key from the environment goes into the parameters; one
  request; a second one, after 60 seconds, when the body has a \<open>Note\<close>; then the checks,
  on the response of the last request made.
\<close>

definition do_fetch ::
  "(string \<times> string) list \<Rightarrow> 'd world \<Rightarrow> (error + json) \<times> 'd world" where
  "do_fetch params0 w0 =
     (case environ w0 ''ALPHAVANTAGE_API_KEY'' of
        None \<Rightarrow> (Inl (KeyError ''ALPHAVANTAGE_API_KEY''), w0)
      | Some key \<Rightarrow>
          (let params = AList.update ''apikey'' key params0 in
           case get_json params w0 of
             (Inl e, w1) \<Rightarrow> (Inl e, w1)
           | (Inr (resp1, data1), w1) \<Rightarrow>
               (case py_in ''Note'' data1 of
                  Inl e \<Rightarrow> (Inl e, w1)
                | Inr False \<Rightarrow> (check_response resp1 data1, w1)
                | Inr True \<Rightarrow>
                    (case get_json params (sleep 60 w1) of
                       (Inl e, w2) \<Rightarrow> (Inl e, w2)
                     | (Inr (resp2, data2), w2) \<Rightarrow> (check_response resp2 data2, w2)))))"

section \<open>The price source\<close>

record 'd SourcePrice =
  price :: 'd
  time :: datetime
  quote_currency :: string

text \<open>\<open>Source.get_latest_price(ticker)\<close>.\<close>

definition get_latest_price ::
  "string \<Rightarrow> 'd world \<Rightarrow> (error + 'd SourcePrice) \<times> 'd world" where
  "get_latest_price ticker w =
     (case parse_ticker (word_class w) ticker of
        Inl e \<Rightarrow> (Inl e, w)
      | Inr (kind, symbol, base) \<Rightarrow>
          (if kind = ''price''
           then (case do_fetch [(''function'', ''GLOBAL_QUOTE''), (''symbol'', symbol)] w of
                   (Inl e, w1) \<Rightarrow> (Inl e, w1)
                 | (Inr data, w1) \<Rightarrow>
                     (case py_getitem data ''Global Quote'' of
                        Inl e \<Rightarrow> (Inl e, w1)
                      | Inr price_data \<Rightarrow>
                     (case py_getitem price_data ''05. price'' of
                        Inl e \<Rightarrow> (Inl e, w1)
                      | Inr p \<Rightarrow>
                     (case Decimal w1 p of
                        Inl e \<Rightarrow> (Inl e, w1)
                      | Inr pr \<Rightarrow>
                     (case py_getitem price_data ''07. latest trading day'' of
                        Inl e \<Rightarrow> (Inl e, w1)
                      | Inr day \<Rightarrow>
                     (case parse w1 day of
                        Inl e \<Rightarrow> (Inl e, w1)
                      | Inr date \<Rightarrow>
                          (Inr \<lparr>price = pr, time = date\<lparr>tzinfo := Some tzutc\<rparr>,
                                quote_currency = base\<rparr>, w1)))))))
           else (case do_fetch [(''function'', ''CURRENCY_EXCHANGE_RATE''),
                                (''from_currency'', symbol), (''to_currency'', base)] w of
                   (Inl e, w1) \<Rightarrow> (Inl e, w1)
                 | (Inr data, w1) \<Rightarrow>
                     (case py_getitem data ''Realtime Currency Exchange Rate'' of
                        Inl e \<Rightarrow> (Inl e, w1)
                      | Inr price_data \<Rightarrow>
                     (case py_getitem price_data ''5. Exchange Rate'' of
                        Inl e \<Rightarrow> (Inl e, w1)
                      | Inr p \<Rightarrow>
                     (case Decimal w1 p of
                        Inl e \<Rightarrow> (Inl e, w1)
                      | Inr pr \<Rightarrow>
                     (case py_getitem price_data ''6. Last Refreshed'' of
                        Inl e \<Rightarrow> (Inl e, w1)
                      | Inr refreshed \<Rightarrow>
                     (case parse w1 refreshed of
                        Inl e \<Rightarrow> (Inl e, w1)
                      | Inr date \<Rightarrow>
                     (case py_getitem price_data ''7. Time Zone'' of
                        Inl e \<Rightarrow> (Inl e, w1)
                      | Inr zone \<Rightarrow>
                     (case gettz w1 zone of
                        Inl e \<Rightarrow> (Inl e, w1)
                      | Inr z \<Rightarrow>
                          (Inr \<lparr>price = pr, time = date\<lparr>tzinfo := z\<rparr>,
                                quote_currency = base\<rparr>, w1)))))))))))"

subsection \<open>The historical price\<close>

definition upper_case :: string where
  "upper_case = ''ABCDEFGHIJKLMNOPQRSTUVWXYZ''"

definition lower_case :: string where
  "lower_case = ''abcdefghijklmnopqrstuvwxyz''"

definition lower_char :: "char \<Rightarrow> char" where
  "lower_char c = (case map_of (zip upper_case lower_case) c of None \<Rightarrow> c | Some l \<Rightarrow> l)"

text \<open>\<open>v.lower()\<close>: defined on a string only (on the ASCII letters here).\<close>

fun py_lower :: "json \<Rightarrow> error + string" where
  "py_lower (JStr s) = Inr (map lower_char s)"
| "py_lower _ = Inl AttributeError"

text \<open>
  \<open>"Information" in data and "premium endpoint" in data["Information"].lower()\<close>.
\<close>

definition premium_required :: "json \<Rightarrow> error + bool" where
  "premium_required data =
     (case py_in ''Information'' data of
        Inl e \<Rightarrow> Inl e
      | Inr False \<Rightarrow> Inr False
      | Inr True \<Rightarrow>
          (case py_getitem data ''Information'' of
             Inl e \<Rightarrow> Inl e
           | Inr v \<Rightarrow>
               (case py_lower v of
                  Inl e \<Rightarrow> Inl e
                | Inr s \<Rightarrow> Inr (str_contains ''premium endpoint'' s))))"

text \<open>
  The loop
  \<open>while time.strftime("%Y-%m-%d") not in price_data: time -= timedelta(days=1)\<close>.
  It returns the datetime it stops at, or the exception that ends it: that of the
  membership test, or the \<open>OverflowError\<close> of the subtraction (\<open>sub_days t 1\<close>, written
  out so that the recursion is seen to go down).
\<close>

function walk_back :: "(int \<Rightarrow> string) \<Rightarrow> json \<Rightarrow> datetime \<Rightarrow> error + datetime" where
  "walk_back year price_data t =
     (case py_in (strftime_Ymd year t) price_data of
        Inl e \<Rightarrow> Inl e
      | Inr True \<Rightarrow> Inr t
      | Inr False \<Rightarrow>
          (if 0 < ordinal t - 1 \<and> ordinal t - 1 \<le> MAXORDINAL
           then walk_back year price_data (t\<lparr>ordinal := ordinal t - 1\<rparr>)
           else Inl OverflowError))"
  by pat_completeness auto
termination
  by (relation "measure (\<lambda>(year, price_data, t). nat (ordinal t))") auto

declare walk_back.simps [simp del]

text \<open>
  The 130-day rule as the specification words it: the requested instant (the wall time
  of the datetime less the offset of its zone) is more than 130 days before the current
  time (the clock's reading, in UTC).
\<close>

definition older_than_130_days :: "datetime \<Rightarrow> tzinfo \<Rightarrow> 'd world \<Rightarrow> bool" where
  "older_than_130_days t z w =
     (wall_usec t - utcoffset z < wall_usec (now_utc w) - 130 * 86400000000)"

definition daily_params :: "string \<Rightarrow> bool \<Rightarrow> (string \<times> string) list" where
  "daily_params symbol old =
     [(''function'', ''TIME_SERIES_DAILY''), (''symbol'', symbol),
      (''outputSize'', if old then ''full'' else ''compact'')]"

definition fx_params :: "string \<Rightarrow> string \<Rightarrow> (string \<times> string) list" where
  "fx_params symbol base =
     [(''function'', ''CURRENCY_EXCHANGE_RATE''), (''from_currency'', symbol),
      (''to_currency'', base)]"

text \<open>
  The normalisation of the body of a daily series (lines 132 to 150 of
  \<open>get_historical_price\<close>): the premium notice, the missing series, and the close of the
  day the loop stops at, with the datetime the loop stops at.
\<close>

definition historical_from_data ::
  "json \<Rightarrow> datetime \<Rightarrow> string \<Rightarrow> 'd world \<Rightarrow> (error + 'd SourcePrice option) \<times> 'd world" where
  "historical_from_data data time0 base w1 =
     (case premium_required data of
        Inl e \<Rightarrow> (Inl e, w1)
      | Inr True \<Rightarrow> (Inr None, logging (LogInfo ''Premium endpoint API key required.'') w1)
      | Inr False \<Rightarrow>
          (case py_in ''Time Series (Daily)'' data of
             Inl e \<Rightarrow> (Inl e, w1)
           | Inr False \<Rightarrow>
               (Inr None, logging (LogError ''Price data not found when expected: %s'' data) w1)
           | Inr True \<Rightarrow>
               (case py_getitem data ''Time Series (Daily)'' of
                  Inl e \<Rightarrow> (Inl e, w1)
                | Inr price_data \<Rightarrow>
               (case walk_back (strftime_Y w1) price_data time0 of
                  Inl e \<Rightarrow> (Inl e, w1)
                | Inr time1 \<Rightarrow>
               (case py_getitem price_data (strftime_Ymd (strftime_Y w1) time1) of
                  Inl e \<Rightarrow> (Inl e, w1)
                | Inr day_data \<Rightarrow>
               (case py_getitem day_data ''4. close'' of
                  Inl e \<Rightarrow> (Inl e, w1)
                | Inr close \<Rightarrow>
               (case Decimal w1 close of
                  Inl e \<Rightarrow> (Inl e, w1)
                | Inr pr \<Rightarrow>
                    (Inr (Some \<lparr>price = pr, time = time1, quote_currency = base\<rparr>), w1))))))))"

text \<open>
  \<open>Source.get_historical_price(ticker, time)\<close>: the ticker is parsed, the output size
  is chosen from the clock, and only then the kind is looked at.
\<close>

definition get_historical_price ::
  "string \<Rightarrow> datetime \<Rightarrow> 'd world \<Rightarrow> (error + 'd SourcePrice option) \<times> 'd world" where
  "get_historical_price ticker time0 w =
     (case parse_ticker (word_class w) ticker of
        Inl e \<Rightarrow> (Inl e, w)
      | Inr (kind, symbol, base) \<Rightarrow>
     (case sub_days (now_utc w) 130 of
        Inl e \<Rightarrow> (Inl e, w)
      | Inr limit \<Rightarrow>
     (case dt_less time0 limit of
        Inl e \<Rightarrow> (Inl e, w)
      | Inr old \<Rightarrow>
          (let param_output_size = (if old then ''full'' else ''compact'') in
           if kind = ''price''
           then (case do_fetch [(''function'', ''TIME_SERIES_DAILY''), (''symbol'', symbol),
                                (''outputSize'', param_output_size)] w of
                   (Inl e, w1) \<Rightarrow> (Inl e, w1)
                 | (Inr data, w1) \<Rightarrow> historical_from_data data time0 base w1)
           else (Inr None, logging (LogInfo ''Currency exchange not implemented yet.'') w)))))"

section \<open>Test doubles\<close>

text \<open>
  The worlds the theorems are tried in, after the module's unit tests: the environment
  holds the key \<open>foo\<close>, the server answers the \<open>n\<close>-th request with a canned response
  (\<open>response(contents, status_code)\<close> of the tests), and the library functions are
  stand-ins: \<open>Decimal\<close> keeps the literal of a string, \<open>parse\<close> knows the two timestamps
  of the tests, \<open>gettz\<close> knows the zone \<open>UTC\<close> only; the word class is that of Latin-1 and
  the year is printed as the GNU C library does.
\<close>

text \<open>
  The class \<open>\w\<close> on the code points below 256: the ASCII letters and digits, the
  underscore, and the letters and numeric characters of Latin-1.
\<close>

definition latin1_word_chars :: string where
  "latin1_word_chars =
     ''abcdefghijklmnopqrstuvwxyzABCDEFGHIJKLMNOPQRSTUVWXYZ0123456789_'' @
     [CHR 0xAA, CHR 0xB2, CHR 0xB3, CHR 0xB5, CHR 0xB9, CHR 0xBA, CHR 0xBC, CHR 0xBD, CHR 0xBE,
      CHR 0xC0, CHR 0xC1, CHR 0xC2, CHR 0xC3, CHR 0xC4, CHR 0xC5, CHR 0xC6, CHR 0xC7, CHR 0xC8,
      CHR 0xC9, CHR 0xCA, CHR 0xCB, CHR 0xCC, CHR 0xCD, CHR 0xCE, CHR 0xCF, CHR 0xD0, CHR 0xD1,
      CHR 0xD2, CHR 0xD3, CHR 0xD4, CHR 0xD5, CHR 0xD6, CHR 0xD8, CHR 0xD9, CHR 0xDA, CHR 0xDB,
      CHR 0xDC, CHR 0xDD, CHR 0xDE, CHR 0xDF, CHR 0xE0, CHR 0xE1, CHR 0xE2, CHR 0xE3, CHR 0xE4,
      CHR 0xE5, CHR 0xE6, CHR 0xE7, CHR 0xE8, CHR 0xE9, CHR 0xEA, CHR 0xEB, CHR 0xEC, CHR 0xED,
      CHR 0xEE, CHR 0xEF, CHR 0xF0, CHR 0xF1, CHR 0xF2, CHR 0xF3, CHR 0xF4, CHR 0xF5, CHR 0xF6,
      CHR 0xF8, CHR 0xF9, CHR 0xFA, CHR 0xFB, CHR 0xFC, CHR 0xFD, CHR 0xFE, CHR 0xFF]"

definition latin1_word :: "char \<Rightarrow> bool" where
  "latin1_word c = (c \<in> set latin1_word_chars)"

text \<open>
  The year as the GNU C library prints \<open>%Y\<close>: in decimal, without leading zeros (for the
  years 1 to 9999 of \<open>datetime\<close>).
\<close>

definition glibc_year :: "int \<Rightarrow> string" where
  "glibc_year y = (if y < 1000 then dropWhile (\<lambda>c. c = CHR ''0'') (zero_pad4 y) else zero_pad4 y)"

definition json_response :: "int \<Rightarrow> json \<Rightarrow> response" where
  "json_response status contents = \<lparr>status_code = status, resp_text = [], body = Some contents\<rparr>"

definition test_Decimal :: "json \<Rightarrow> error + string" where
  "test_Decimal v = (case v of JStr s \<Rightarrow> Inr s | _ \<Rightarrow> Inl (LibraryError ''InvalidOperation''))"

definition test_parse :: "json \<Rightarrow> error + datetime" where
  "test_parse v =
     (if v = JStr ''2021-01-21'' then Inr \<lparr>ordinal = 737811, usec = 0, tzinfo = None\<rparr>
      else if v = JStr ''2021-02-21 20:32:25''
      then Inr \<lparr>ordinal = 737842, usec = 73945000000, tzinfo = None\<rparr>
      else Inl (LibraryError ''ParserError''))"

definition test_gettz :: "json \<Rightarrow> error + tzinfo option" where
  "test_gettz v = (if v = JStr ''UTC'' then Inr (Some tzutc) else Inr None)"

definition test_environ :: "string \<Rightarrow> string option" where
  "test_environ = [''ALPHAVANTAGE_API_KEY'' \<mapsto> ''foo'']"

text \<open>The clock of the test worlds reads 2025-04-08, 00:00 UTC.\<close>

definition test_world :: "(string \<Rightarrow> string option) \<Rightarrow> (nat \<Rightarrow> response) \<Rightarrow> string world" where
  "test_world env answers =
     \<lparr>environ = env, server = (\<lambda>n url params. Inr (answers n)), clock = (739349, 0),
      gettz = test_gettz, parse = test_parse, Decimal = test_Decimal,
      word_class = latin1_word, strftime_Y = glibc_year,
      requests = [], slept = 0, logged = []\<rparr>"

text \<open>The daily series of the unit test (\<open>response_tsda\<close>), with the fields the module reads.\<close>

definition tsda_series :: "(string \<times> json) list" where
  "tsda_series =
     [(''2025-04-08'', JObj [(''1. open'', JStr ''232.56''), (''4. close'', JStr ''221.03'')]),
      (''2025-04-07'', JObj [(''1. open'', JStr ''219.24''), (''4. close'', JStr ''225.78'')]),
      (''2025-04-04'', JObj [(''1. open'', JStr ''238.0''), (''4. close'', JStr ''227.48'')]),
      (''2025-04-03'', JObj [(''1. open'', JStr ''242.71''), (''4. close'', JStr ''243.49'')])]"

definition response_tsda :: "(string \<times> json) list" where
  "response_tsda =
     [(''Meta Data'', JObj [(''2. Symbol'', JStr ''IBM''), (''5. Time Zone'', JStr ''US/Eastern'')]),
      (''Time Series (Daily)'', JObj tsda_series)]"

text \<open>A server that answers every request with status 200 and the same body.\<close>

definition canned_world :: "json \<Rightarrow> string world" where
  "canned_world contents = test_world test_environ (\<lambda>n. json_response 200 contents)"

text \<open>
  The exchange rate of the unit test (\<open>test_valid_response_fx\<close>), with a given zone name.
\<close>

definition response_fx :: "string \<Rightarrow> (string \<times> json) list" where
  "response_fx zone =
     [(''Realtime Currency Exchange Rate'',
       JObj [(''5. Exchange Rate'', JStr ''108.94000000''),
             (''6. Last Refreshed'', JStr ''2021-02-21 20:32:25''),
             (''7. Time Zone'', JStr zone)])]"

text \<open>Sunday 2025-04-06, 12:00 UTC, and Monday 2024-01-01, 00:00 UTC.\<close>

definition sunday_noon :: datetime where
  "sunday_noon = \<lparr>ordinal = 739347, usec = 43200000000, tzinfo = Some tzutc\<rparr>"

definition new_year_2024 :: datetime where
  "new_year_2024 = \<lparr>ordinal = 738886, usec = 0, tzinfo = Some tzutc\<rparr>"


text \<open>The body of \<open>test_error_response\<close>, served with a given status.\<close>

definition error_world :: "int \<Rightarrow> string world" where
  "error_world status =
     test_world test_environ
       (\<lambda>n. json_response status (JObj [(''Error Message'', JStr ''Something wrong'')]))"

definition quote_params :: "(string \<times> string) list" where
  "quote_params = [(''function'', ''GLOBAL_QUOTE''), (''symbol'', ''IBM'')]"

section \<open>Verification: the ticker parser\<close>

lemma match_kind_built:
  "kind = ''price'' \<or> kind = ''fx'' \<Longrightarrow> match_kind (kind @ '':'' @ rest) = Some (kind, rest)"
  by (auto simp: match_kind_def)

lemma match_kind_SomeD:
  assumes "match_kind s = Some (kind, rest)"
  shows "(kind = ''price'' \<or> kind = ''fx'') \<and> s = kind @ '':'' @ rest"
proof (cases "prefix ''price:'' s")
  case True
  then obtain zs where "s = ''price:'' @ zs" by (auto simp: prefix_def)
  with assms show ?thesis by (simp add: match_kind_def)
next
  case False
  with assms have p: "prefix ''fx:'' s" by (simp add: match_kind_def split: if_splits)
  then obtain zs where "s = ''fx:'' @ zs" by (auto simp: prefix_def)
  with assms False show ?thesis by (simp add: match_kind_def)
qed

lemma split_symbol:
  assumes "list_all (\<lambda>c. c \<noteq> CHR '':'') symbol"
  shows "takeWhile (\<lambda>c. c \<noteq> CHR '':'') (symbol @ CHR '':'' # xs) = symbol"
    and "dropWhile (\<lambda>c. c \<noteq> CHR '':'') (symbol @ CHR '':'' # xs) = CHR '':'' # xs"
  using assms by (induction symbol) auto

lemma parse_ticker_built:
  assumes "valid_components word kind symbol base" "trail = [] \<or> trail = [newline]"
    and "\<not> word newline"
  shows "parse_ticker word (ticker_string kind symbol base @ trail) = Inr (kind, symbol, base)"
proof -
  from assms(1) have k: "kind = ''price'' \<or> kind = ''fx''"
    and s: "symbol \<noteq> []" "list_all (\<lambda>c. c \<noteq> CHR '':'') symbol"
    and b: "base \<noteq> []" "list_all word base"
    by (simp_all add: valid_components_def)
  have m: "match_kind (ticker_string kind symbol base @ trail)
             = Some (kind, symbol @ CHR '':'' # (base @ trail))"
    using match_kind_built [OF k, of "symbol @ CHR '':'' # (base @ trail)"]
    by (simp add: ticker_string_def)
  have t: "takeWhile word trail = []" "dropWhile word trail = trail"
    using assms(2,3) by auto
  have tb: "takeWhile word (base @ trail) = base" "dropWhile word (base @ trail) = trail"
    using b(2) t by (simp_all add: list_all_iff)
  have "parse_ticker word (ticker_string kind symbol base @ trail) =
          (if base \<noteq> [] \<and> (trail = [] \<or> trail = [newline])
           then Inr (kind, symbol, base) else Inl invalid_ticker)"
    unfolding parse_ticker_def m
    by (simp only: option.case prod.case Let_def split_symbol [OF s(2)] list.sel tb s(1))
       simp
  with b(1) assms(2) show ?thesis by simp
qed

lemma parse_ticker_InrD:
  assumes "parse_ticker word s = Inr (kind, symbol, base)"
  shows "valid_components word kind symbol base \<and>
         (s = ticker_string kind symbol base \<or> s = ticker_string kind symbol base @ [newline])"
proof -
  from assms obtain rest where mk: "match_kind s = Some (kind, rest)"
    and sym: "symbol = takeWhile (\<lambda>c. c \<noteq> CHR '':'') rest" "symbol \<noteq> []"
    and aft: "dropWhile (\<lambda>c. c \<noteq> CHR '':'') rest \<noteq> []"
    and bas: "base = takeWhile word (tl (dropWhile (\<lambda>c. c \<noteq> CHR '':'') rest))" "base \<noteq> []"
    and trl: "dropWhile word (tl (dropWhile (\<lambda>c. c \<noteq> CHR '':'') rest)) = [] \<or>
              dropWhile word (tl (dropWhile (\<lambda>c. c \<noteq> CHR '':'') rest)) = [newline]"
    by (auto simp: parse_ticker_def Let_def split: option.splits if_splits)
  let ?after = "dropWhile (\<lambda>c. c \<noteq> CHR '':'') rest"
  let ?trail = "dropWhile word (tl ?after)"
  from match_kind_SomeD [OF mk] have k: "kind = ''price'' \<or> kind = ''fx''"
    and s: "s = kind @ '':'' @ rest" by auto
  from aft have "hd ?after = CHR '':''" using hd_dropWhile [of "\<lambda>c. c \<noteq> CHR '':''" rest] by simp
  with aft have a: "?after = CHR '':'' # tl ?after" by (cases ?after) auto
  define tr where "tr = ?trail"
  have "rest = symbol @ ?after" by (simp add: sym)
  also have "\<dots> = symbol @ CHR '':'' # (base @ tr)" using a by (simp add: bas tr_def)
  finally have r: "rest = symbol @ CHR '':'' # (base @ tr)" .
  from trl have t: "tr = [] \<or> tr = [newline]" by (simp only: tr_def)
  have v: "valid_components word kind symbol base"
    using k sym bas by (auto simp: valid_components_def list_all_iff dest: set_takeWhileD)
  from t show ?thesis
  proof
    assume "tr = []"
    with r s v show ?thesis by (simp add: ticker_string_def)
  next
    assume "tr = [newline]"
    with r s v show ?thesis by (simp add: ticker_string_def)
  qed
qed

lemma parse_ticker_InlD: "parse_ticker word s = Inl e \<Longrightarrow> e = invalid_ticker"
  by (auto simp: parse_ticker_def Let_def split: option.splits if_splits)

lemma matches_grammar_last:
  assumes "matches_grammar word s"
  shows "word (last s)"
proof -
  from assms obtain kind symbol base
    where v: "valid_components word kind symbol base" and s: "s = ticker_string kind symbol base"
    unfolding matches_grammar_def by blast
  from v have b: "base \<noteq> []" "list_all word base"
    by (simp_all add: valid_components_def)
  from b(1) have "last s = last base"
    by (simp add: s ticker_string_def)
  moreover from b(1) have "last base \<in> set base" by simp
  ultimately show ?thesis using b(2) by (simp add: list_all_iff)
qed

text \<open>
  What the parser does on every string, for any word class that leaves out the newline
  (as that of the Unicode database does): a ticker built from components that fit the
  grammar parses to these components; a string that is neither such a ticker nor such a
  ticker followed by one newline raises the invalid-ticker \<open>ValueError\<close>; and that error
  is no \<open>AlphavantageApiError\<close>, which the errors of the client are.
\<close>

lemma parse_ticker_characterisation:
  assumes "\<not> word newline"
  shows
  "(valid_components word kind symbol base \<longrightarrow>
      parse_ticker word (ticker_string kind symbol base) = Inr (kind, symbol, base)) \<and>
   (\<not> matches_grammar word s \<and> \<not> (\<exists>s'. matches_grammar word s' \<and> s = s' @ [newline]) \<longrightarrow>
      parse_ticker word s = Inl invalid_ticker) \<and>
   \<not> is_AlphavantageApiError invalid_ticker \<and> is_AlphavantageApiError (AlphavantageApiError m)"
proof (intro conjI impI)
  assume v: "valid_components word kind symbol base"
  show "parse_ticker word (ticker_string kind symbol base) = Inr (kind, symbol, base)"
    using parse_ticker_built [OF v _ assms, of "[]"] by simp
next
  assume n: "\<not> matches_grammar word s \<and> \<not> (\<exists>s'. matches_grammar word s' \<and> s = s' @ [newline])"
  show "parse_ticker word s = Inl invalid_ticker"
  proof (cases "parse_ticker word s")
    case (Inl e)
    then show ?thesis using parse_ticker_InlD by simp
  next
    case (Inr t)
    obtain k sy b where "t = (k, sy, b)" by (cases t) auto
    with Inr parse_ticker_InrD [of word s k sy b]
    have v: "valid_components word k sy b"
      and e: "s = ticker_string k sy b \<or> s = ticker_string k sy b @ [newline]" by auto
    from v have "matches_grammar word (ticker_string k sy b)"
      by (auto simp: matches_grammar_def)
    with e n show ?thesis by auto
  qed
qed (simp_all add: invalid_ticker_def)

lemma latin1_word_newline: "\<not> latin1_word newline"
  by (simp add: latin1_word_def latin1_word_chars_def newline_def)

text \<open>
  Claim C5 is right about the format and the code misses one case of it.  The pattern
  is anchored to the whole string and the docstring and the error message give the
  format as kind:XXX:YYY, but \<open>$\<close> also matches before a final newline: a valid ticker
  followed by a newline is not of that format (its last character is no word
  character, and the components returned do not rebuild it), and the parser returns its
  components instead of raising.
\<close>

theorem parse_ticker_trailing_newline:
  "parse_ticker latin1_word (''price:IBM:USD'' @ [newline]) = Inr (''price'', ''IBM'', ''USD'') \<and>
   ticker_string ''price'' ''IBM'' ''USD'' \<noteq> ''price:IBM:USD'' @ [newline] \<and>
   \<not> matches_grammar latin1_word (''price:IBM:USD'' @ [newline])"
proof (intro conjI)
  show "ticker_string ''price'' ''IBM'' ''USD'' \<noteq> ''price:IBM:USD'' @ [newline]"
    by (simp add: ticker_string_def)
  show "parse_ticker latin1_word (''price:IBM:USD'' @ [newline]) = Inr (''price'', ''IBM'', ''USD'')"
    by (simp add: parse_ticker_def match_kind_def latin1_word_def latin1_word_chars_def newline_def)
  show "\<not> matches_grammar latin1_word (''price:IBM:USD'' @ [newline])"
    using matches_grammar_last [of latin1_word "''price:IBM:USD'' @ [newline]"] latin1_word_newline
    by auto
qed

section \<open>Verification: the API client\<close>

lemmas world_eval = test_world_def test_environ_def json_response_def query_url_def

lemma get_json_eq:
  "get_json ps w =
     (case server w (length (requests w)) query_url ps of
        Inl e \<Rightarrow> Inl e
      | Inr resp \<Rightarrow> (case body resp of None \<Rightarrow> Inl JSONDecodeError | Some data \<Rightarrow> Inr (resp, data)),
      w\<lparr>requests := requests w @ [(query_url, ps)]\<rparr>)"
  by (simp add: get_json_def requests_get_def split: sum.split option.split)

lemma get_json_ok:
  assumes "server w (length (requests w)) query_url ps = Inr resp" "body resp = Some data"
  shows "get_json ps w = (Inr (resp, data), w\<lparr>requests := requests w @ [(query_url, ps)]\<rparr>)"
  using assms by (simp add: get_json_eq)

lemma do_fetch_no_key:
  "environ w ''ALPHAVANTAGE_API_KEY'' = None \<Longrightarrow>
   do_fetch params w = (Inl (KeyError ''ALPHAVANTAGE_API_KEY''), w)"
  by (simp add: do_fetch_def)

text \<open>The world after a fetch: one request sent, or two with 60 seconds between them.\<close>

lemma do_fetch_world:
  "snd (do_fetch params w) =
     (case environ w ''ALPHAVANTAGE_API_KEY'' of
        None \<Rightarrow> w
      | Some key \<Rightarrow>
          (case fst (get_json (AList.update ''apikey'' key params) w) of
             Inl e \<Rightarrow> w\<lparr>requests := requests w @ [(query_url, AList.update ''apikey'' key params)]\<rparr>
           | Inr (resp1, data1) \<Rightarrow>
               (if py_in ''Note'' data1 = Inr True
                then w\<lparr>requests := requests w @ [(query_url, AList.update ''apikey'' key params),
                                                   (query_url, AList.update ''apikey'' key params)],
                       slept := slept w + 60\<rparr>
                else w\<lparr>requests := requests w @ [(query_url, AList.update ''apikey'' key params)]\<rparr>)))"
  by (simp add: do_fetch_def get_json_eq sleep_def Let_def split: option.split sum.split bool.split)

lemma do_fetch_sent:
  "requests (snd (do_fetch params w)) = requests w \<and> environ w ''ALPHAVANTAGE_API_KEY'' = None \<or>
   (\<exists>key. environ w ''ALPHAVANTAGE_API_KEY'' = Some key \<and>
      (requests (snd (do_fetch params w)) =
         requests w @ [(query_url, AList.update ''apikey'' key params)] \<or>
       requests (snd (do_fetch params w)) =
         requests w @ [(query_url, AList.update ''apikey'' key params),
                       (query_url, AList.update ''apikey'' key params)]))"
  by (simp add: do_fetch_world split: option.split sum.split)

lemma do_fetch_first:
  assumes "environ w ''ALPHAVANTAGE_API_KEY'' = Some key"
    and "server w (length (requests w)) query_url (AList.update ''apikey'' key params) = Inr resp"
    and "body resp = Some data"
    and "py_in ''Note'' data = Inr False"
  shows "do_fetch params w =
           (check_response resp data,
            w\<lparr>requests := requests w @ [(query_url, AList.update ''apikey'' key params)]\<rparr>)"
  using assms by (simp add: do_fetch_def get_json_eq Let_def)

lemma do_fetch_retry:
  assumes "environ w ''ALPHAVANTAGE_API_KEY'' = Some key"
    and "server w (length (requests w)) query_url (AList.update ''apikey'' key params) = Inr resp1"
    and "body resp1 = Some data1"
    and "py_in ''Note'' data1 = Inr True"
    and "server w (Suc (length (requests w))) query_url (AList.update ''apikey'' key params) = Inr resp2"
    and "body resp2 = Some data2"
  shows "do_fetch params w =
           (check_response resp2 data2,
            w\<lparr>requests := requests w @ [(query_url, AList.update ''apikey'' key params),
                                         (query_url, AList.update ''apikey'' key params)],
              slept := slept w + 60\<rparr>)"
  using assms by (simp add: do_fetch_def get_json_eq sleep_def Let_def)

lemma check_response_error_message:
  assumes "map_of kvs ''Error Message'' = Some msg"
  shows "check_response resp (JObj kvs) =
           Inl (AlphavantageApiError
                  (if status_code resp = 200 then Invalid_response msg
                   else Invalid_response_status (status_code resp) (resp_text resp)))"
  using assms by (simp add: check_response_def)

text \<open>
  Claim C10.  Without the variable \<open>ALPHAVANTAGE_API_KEY\<close> in the environment a fetch
  ends with the \<open>KeyError\<close> of the lookup and leaves the world as it was: no request has
  been sent.  And in any world, every request a fetch sends carries the key of the
  environment as its \<open>apikey\<close> parameter.
\<close>

theorem fetch_requires_api_key:
  "(environ w ''ALPHAVANTAGE_API_KEY'' = None \<longrightarrow>
      do_fetch params w = (Inl (KeyError ''ALPHAVANTAGE_API_KEY''), w)) \<and>
   (\<forall>r \<in> set (drop (length (requests w)) (requests (snd (do_fetch params w)))).
      environ w ''ALPHAVANTAGE_API_KEY'' \<noteq> None \<and>
      map_of (snd r) ''apikey'' = environ w ''ALPHAVANTAGE_API_KEY'')"
proof
  show "environ w ''ALPHAVANTAGE_API_KEY'' = None \<longrightarrow>
      do_fetch params w = (Inl (KeyError ''ALPHAVANTAGE_API_KEY''), w)"
    by (simp add: do_fetch_no_key)
  from do_fetch_sent [of params w]
  show "\<forall>r \<in> set (drop (length (requests w)) (requests (snd (do_fetch params w)))).
      environ w ''ALPHAVANTAGE_API_KEY'' \<noteq> None \<and>
      map_of (snd r) ''apikey'' = environ w ''ALPHAVANTAGE_API_KEY''"
    by (auto simp: update_conv')
qed

theorem fetch_requires_api_key_witness:
  "environ (test_world Map.empty (\<lambda>n. json_response 200 (JObj []))) ''ALPHAVANTAGE_API_KEY'' = None \<and>
   do_fetch [(''function'', ''GLOBAL_QUOTE''), (''symbol'', ''IBM'')]
       (test_world Map.empty (\<lambda>n. json_response 200 (JObj []))) =
     (Inl (KeyError ''ALPHAVANTAGE_API_KEY''), test_world Map.empty (\<lambda>n. json_response 200 (JObj []))) \<and>
   requests (snd (do_fetch [(''function'', ''GLOBAL_QUOTE''), (''symbol'', ''IBM'')]
       (test_world test_environ (\<lambda>n. json_response 200 (JObj []))))) =
     [(query_url, [(''function'', ''GLOBAL_QUOTE''), (''symbol'', ''IBM''), (''apikey'', ''foo'')])] \<and>
   map_of [(''function'', ''GLOBAL_QUOTE''), (''symbol'', ''IBM''), (''apikey'', ''foo'')] ''apikey'' =
     environ (test_world test_environ (\<lambda>n. json_response 200 (JObj []))) ''ALPHAVANTAGE_API_KEY''"
proof -
  have e: "environ (test_world Map.empty (\<lambda>n. json_response 200 (JObj []))) ''ALPHAVANTAGE_API_KEY'' = None"
    by (simp add: test_world_def)
  have r: "requests (snd (do_fetch [(''function'', ''GLOBAL_QUOTE''), (''symbol'', ''IBM'')]
       (test_world test_environ (\<lambda>n. json_response 200 (JObj []))))) =
     [(query_url, [(''function'', ''GLOBAL_QUOTE''), (''symbol'', ''IBM''), (''apikey'', ''foo'')])]"
    by (simp add: do_fetch_world get_json_eq world_eval)
  from fetch_requires_api_key
         [of "test_world Map.empty (\<lambda>n. json_response 200 (JObj []))"
             "[(''function'', ''GLOBAL_QUOTE''), (''symbol'', ''IBM'')]"]
       fetch_requires_api_key
         [of "test_world test_environ (\<lambda>n. json_response 200 (JObj []))"
             "[(''function'', ''GLOBAL_QUOTE''), (''symbol'', ''IBM'')]"]
       e r
  show ?thesis by (simp add: test_world_def)
qed



text \<open>
  Claim C1, as the code has it.  When the body the checks run on (that of the first
  response, or of the second one after a \<open>Note\<close>) is an object with an \<open>Error Message\<close>,
  the fetch fails with an \<open>AlphavantageApiError\<close> whatever the status; the error carries
  the message when the status is 200, and the status and the text of the response
  otherwise, since the status is checked first.
\<close>

theorem fetch_error_message:
  assumes "ps = AList.update ''apikey'' key params" and "n = length (requests w)"
    and "environ w ''ALPHAVANTAGE_API_KEY'' = Some key"
    and "map_of kvs ''Error Message'' = Some msg"
  shows
  "(server w n query_url ps = Inr resp \<and> body resp = Some (JObj kvs) \<and>
    map_of kvs ''Note'' = None \<longrightarrow>
      fst (do_fetch params w) =
        Inl (AlphavantageApiError
               (if status_code resp = 200 then Invalid_response msg
                else Invalid_response_status (status_code resp) (resp_text resp)))) \<and>
   (server w n query_url ps = Inr resp1 \<and> body resp1 = Some data1 \<and>
    py_in ''Note'' data1 = Inr True \<and>
    server w (Suc n) query_url ps = Inr resp \<and> body resp = Some (JObj kvs) \<longrightarrow>
      fst (do_fetch params w) =
        Inl (AlphavantageApiError
               (if status_code resp = 200 then Invalid_response msg
                else Invalid_response_status (status_code resp) (resp_text resp))))"
proof (intro conjI impI)
  assume "server w n query_url ps = Inr resp \<and> body resp = Some (JObj kvs) \<and>
    map_of kvs ''Note'' = None"
  then have "do_fetch params w =
      (check_response resp (JObj kvs), w\<lparr>requests := requests w @ [(query_url, ps)]\<rparr>)"
    using assms(1-3) do_fetch_first [of w key params resp "JObj kvs"] by simp
  then show "fst (do_fetch params w) =
        Inl (AlphavantageApiError
               (if status_code resp = 200 then Invalid_response msg
                else Invalid_response_status (status_code resp) (resp_text resp)))"
    by (simp add: check_response_error_message [OF assms(4)])
next
  assume "server w n query_url ps = Inr resp1 \<and> body resp1 = Some data1 \<and>
    py_in ''Note'' data1 = Inr True \<and>
    server w (Suc n) query_url ps = Inr resp \<and> body resp = Some (JObj kvs)"
  then have "fst (do_fetch params w) = check_response resp (JObj kvs)"
    using assms(1-3) do_fetch_retry [of w key params resp1 data1 resp "JObj kvs"] by simp
  then show "fst (do_fetch params w) =
        Inl (AlphavantageApiError
               (if status_code resp = 200 then Invalid_response msg
                else Invalid_response_status (status_code resp) (resp_text resp)))"
    by (simp add: check_response_error_message [OF assms(4)])
qed

theorem fetch_error_message_witness:
  "environ (error_world 200) ''ALPHAVANTAGE_API_KEY'' = Some ''foo'' \<and>
   server (error_world 200) 0 query_url (AList.update ''apikey'' ''foo'' quote_params) =
     Inr (json_response 200 (JObj [(''Error Message'', JStr ''Something wrong'')])) \<and>
   map_of [(''Error Message'', JStr ''Something wrong'')] ''Error Message'' =
     Some (JStr ''Something wrong'') \<and>
   map_of [(''Error Message'', JStr ''Something wrong'')] ''Note'' = None \<and>
   fst (do_fetch quote_params (error_world 200)) =
     Inl (AlphavantageApiError (Invalid_response (JStr ''Something wrong'')))"
proof -
  have k: "environ (error_world 200) ''ALPHAVANTAGE_API_KEY'' = Some ''foo''"
    and n: "length (requests (error_world 200)) = 0"
    and s1: "server (error_world 200) 0 query_url (AList.update ''apikey'' ''foo'' quote_params) =
               Inr (json_response 200 (JObj [(''Error Message'', JStr ''Something wrong'')]))"
    by (simp_all add: error_world_def world_eval)
  have b: "body (json_response 200 (JObj [(''Error Message'', JStr ''Something wrong'')])) =
             Some (JObj [(''Error Message'', JStr ''Something wrong'')])"
     "status_code (json_response 200 (JObj [(''Error Message'', JStr ''Something wrong'')])) = 200"
    by (simp_all add: json_response_def)
  have m: "map_of [(''Error Message'', JStr ''Something wrong'')] ''Error Message'' =
             Some (JStr ''Something wrong'')"
          "map_of [(''Error Message'', JStr ''Something wrong'')] ''Note'' = None"
    by simp_all
  from fetch_error_message
         [of "AList.update ''apikey'' ''foo'' quote_params" "''foo''" quote_params 0 "error_world 200"
             "[(''Error Message'', JStr ''Something wrong'')]" "JStr ''Something wrong''"
             "json_response 200 (JObj [(''Error Message'', JStr ''Something wrong'')])"]
       k n s1 b m
  show ?thesis by simp
qed

text \<open>
  The claim as stated fails on the body of \<open>test_error_response\<close> served with status
  404: the error carries the status, not the message.
\<close>

theorem fetch_error_message_status_first:
  "fst (do_fetch quote_params (error_world 404)) =
     Inl (AlphavantageApiError (Invalid_response_status 404 [])) \<and>
   fst (do_fetch quote_params (error_world 404)) \<noteq>
     Inl (AlphavantageApiError (Invalid_response (JStr ''Something wrong'')))"
  by (simp add: do_fetch_def get_json_eq check_response_def error_world_def world_eval Let_def)

section \<open>Verification: the date fallback\<close>

lemma walk_back_here:
  "py_in (strftime_Ymd year t) pd = Inr True \<Longrightarrow> walk_back year pd t = Inr t"
  by (subst walk_back.simps) simp

lemma walk_back_step:
  assumes "py_in (strftime_Ymd year t) pd = Inr False" "1 < ordinal t" "ordinal t \<le> MAXORDINAL"
  shows "walk_back year pd t = walk_back year pd (t\<lparr>ordinal := ordinal t - 1\<rparr>)"
  using assms by (subst walk_back.simps) simp

lemma walk_back_bottom:
  assumes "py_in (strftime_Ymd year t) pd = Inr False" "ordinal t \<le> 1"
  shows "walk_back year pd t = Inl OverflowError"
  using assms by (subst walk_back.simps) simp

text \<open>
  On a valid date the loop stops at the nearest day, on or before the requested one, whose
  key is in the container, if there is one, and ends with an \<open>OverflowError\<close> below
  0001-01-01 otherwise.
\<close>

lemma walk_back_result:
  assumes "1 \<le> ordinal t" "ordinal t \<le> MAXORDINAL"
    and "\<forall>n. 1 \<le> n \<and> n \<le> ordinal t \<longrightarrow> (\<exists>b. py_in (format_Ymd year n) pd = Inr b)"
  shows "(\<exists>n. 1 \<le> n \<and> n \<le> ordinal t \<and> py_in (format_Ymd year n) pd = Inr True \<and>
              (\<forall>n'. n < n' \<and> n' \<le> ordinal t \<longrightarrow> py_in (format_Ymd year n') pd = Inr False) \<and>
              walk_back year pd t = Inr (t\<lparr>ordinal := n\<rparr>)) \<or>
         ((\<forall>n. 1 \<le> n \<and> n \<le> ordinal t \<longrightarrow> py_in (format_Ymd year n) pd = Inr False) \<and>
          walk_back year pd t = Inl OverflowError)"
  using assms
proof (induction "nat (ordinal t)" arbitrary: t)
  case 0
  then show ?case by simp
next
  case (Suc k)
  from Suc.prems obtain b where b: "py_in (format_Ymd year (ordinal t)) pd = Inr b" by blast
  show ?case
  proof (cases b)
    case True
    with b have "walk_back year pd t = Inr (t\<lparr>ordinal := ordinal t\<rparr>)"
      by (simp add: walk_back_here strftime_Ymd_def)
    with b True Suc.prems(1) show ?thesis by force
  next
    case False
    with b have f: "py_in (strftime_Ymd year t) pd = Inr False" by (simp add: strftime_Ymd_def)
    show ?thesis
    proof (cases "ordinal t = 1")
      case True
      with f have "walk_back year pd t = Inl OverflowError" by (simp add: walk_back_bottom)
      moreover from True f have "\<forall>n. 1 \<le> n \<and> n \<le> ordinal t \<longrightarrow> py_in (format_Ymd year n) pd = Inr False"
        by (auto simp: strftime_Ymd_def)
      ultimately show ?thesis by blast
    next
      case gt: False
      let ?t = "t\<lparr>ordinal := ordinal t - 1\<rparr>"
      from gt Suc.prems(1) have o: "1 < ordinal t" by simp
      with f Suc.prems(2) have w: "walk_back year pd t = walk_back year pd ?t" by (simp add: walk_back_step)
      have k: "k = nat (ordinal ?t)" using Suc.hyps(2) by simp
      have p: "1 \<le> ordinal ?t" "ordinal ?t \<le> MAXORDINAL"
        "\<forall>n. 1 \<le> n \<and> n \<le> ordinal ?t \<longrightarrow> (\<exists>b. py_in (format_Ymd year n) pd = Inr b)"
        using o Suc.prems by simp_all
      have here: "\<And>n. n \<le> ordinal t \<Longrightarrow> \<not> n \<le> ordinal t - 1 \<Longrightarrow> n = ordinal t" by simp
      from Suc.hyps(1) [OF k p] show ?thesis
      proof
        assume "\<exists>n. 1 \<le> n \<and> n \<le> ordinal ?t \<and> py_in (format_Ymd year n) pd = Inr True \<and>
              (\<forall>n'. n < n' \<and> n' \<le> ordinal ?t \<longrightarrow> py_in (format_Ymd year n') pd = Inr False) \<and>
              walk_back year pd ?t = Inr (?t\<lparr>ordinal := n\<rparr>)"
        then obtain n where n: "1 \<le> n" "n \<le> ordinal t - 1" "py_in (format_Ymd year n) pd = Inr True"
          "\<forall>n'. n < n' \<and> n' \<le> ordinal t - 1 \<longrightarrow> py_in (format_Ymd year n') pd = Inr False"
          "walk_back year pd ?t = Inr (t\<lparr>ordinal := n\<rparr>)" by auto
        have "\<forall>n'. n < n' \<and> n' \<le> ordinal t \<longrightarrow> py_in (format_Ymd year n') pd = Inr False"
        proof (intro allI impI)
          fix n' assume a: "n < n' \<and> n' \<le> ordinal t"
          show "py_in (format_Ymd year n') pd = Inr False"
          proof (cases "n' \<le> ordinal t - 1")
            case True with a n(4) show ?thesis by blast
          next
            case False with a have "n' = ordinal t" by simp
            with b \<open>\<not> b\<close> show ?thesis by simp
          qed
        qed
        with n w have "1 \<le> n \<and> n \<le> ordinal t \<and> py_in (format_Ymd year n) pd = Inr True \<and>
              (\<forall>n'. n < n' \<and> n' \<le> ordinal t \<longrightarrow> py_in (format_Ymd year n') pd = Inr False) \<and>
              walk_back year pd t = Inr (t\<lparr>ordinal := n\<rparr>)" by simp
        then show ?thesis by blast
      next
        assume a: "(\<forall>n. 1 \<le> n \<and> n \<le> ordinal ?t \<longrightarrow> py_in (format_Ymd year n) pd = Inr False) \<and>
          walk_back year pd ?t = Inl OverflowError"
        have "\<forall>n. 1 \<le> n \<and> n \<le> ordinal t \<longrightarrow> py_in (format_Ymd year n) pd = Inr False"
        proof (intro allI impI)
          fix n assume c: "1 \<le> n \<and> n \<le> ordinal t"
          show "py_in (format_Ymd year n) pd = Inr False"
          proof (cases "n \<le> ordinal t - 1")
            case True with c a show ?thesis by simp
          next
            case False with c have "n = ordinal t" by simp
            with b \<open>\<not> b\<close> show ?thesis by simp
          qed
        qed
        with a w show ?thesis by simp
      qed
    qed
  qed
qed

lemma walk_back_nearest:
  assumes "1 \<le> n" "n \<le> ordinal t" "ordinal t \<le> MAXORDINAL"
    and "py_in (format_Ymd year n) pd = Inr True"
    and "\<forall>n'. n < n' \<and> n' \<le> ordinal t \<longrightarrow> py_in (format_Ymd year n') pd = Inr False"
  shows "walk_back year pd t = Inr (t\<lparr>ordinal := n\<rparr>)"
  using assms
proof (induction "nat (ordinal t - n)" arbitrary: t)
  case 0
  then have "ordinal t = n" by simp
  with 0(5) have "walk_back year pd t = Inr t"
    by (simp add: walk_back_here strftime_Ymd_def)
  with \<open>ordinal t = n\<close> show ?case by simp
next
  case (Suc k)
  let ?t = "t\<lparr>ordinal := ordinal t - 1\<rparr>"
  from Suc.hyps(2) have lt: "n < ordinal t" by simp
  with Suc.prems(5) have "py_in (format_Ymd year (ordinal t)) pd = Inr False" by simp
  then have f: "py_in (strftime_Ymd year t) pd = Inr False" by (simp add: strftime_Ymd_def)
  from lt Suc.prems(1) have "1 < ordinal t" by simp
  with f Suc.prems(3) have w: "walk_back year pd t = walk_back year pd ?t" by (simp add: walk_back_step)
  have k: "k = nat (ordinal ?t - n)" using Suc.hyps(2) by simp
  have p2: "n \<le> ordinal ?t" using lt by simp
  have p3: "ordinal ?t \<le> MAXORDINAL" using Suc.prems(3) by simp
  have p5: "\<forall>n'. n < n' \<and> n' \<le> ordinal ?t \<longrightarrow> py_in (format_Ymd year n') pd = Inr False"
    using Suc.prems(5) by simp
  from Suc.hyps(1) [OF k Suc.prems(1) p2 p3 Suc.prems(4) p5]
  have "walk_back year pd ?t = Inr (t\<lparr>ordinal := n\<rparr>)" by simp
  with w show ?case by simp
qed

lemma walk_back_dict:
  assumes "1 \<le> n" "n \<le> ordinal t" "ordinal t \<le> MAXORDINAL"
    and "map_of series (format_Ymd year n) \<noteq> None"
    and "\<forall>n'. n < n' \<and> n' \<le> ordinal t \<longrightarrow> map_of series (format_Ymd year n') = None"
  shows "walk_back year (JObj series) t = Inr (t\<lparr>ordinal := n\<rparr>)"
proof -
  have h: "py_in (format_Ymd year n) (JObj series) = Inr True" using assms(4) by simp
  have a: "\<forall>n'. n < n' \<and> n' \<le> ordinal t \<longrightarrow> py_in (format_Ymd year n') (JObj series) = Inr False"
    using assms(5) by simp
  from walk_back_nearest [OF assms(1-3) h a] show ?thesis .
qed

lemma walk_back_dict_cases:
  assumes "1 \<le> ordinal t" "ordinal t \<le> MAXORDINAL"
  shows "(\<exists>n. 1 \<le> n \<and> n \<le> ordinal t \<and> map_of series (format_Ymd year n) \<noteq> None \<and>
              (\<forall>n'. n < n' \<and> n' \<le> ordinal t \<longrightarrow> map_of series (format_Ymd year n') = None) \<and>
              walk_back year (JObj series) t = Inr (t\<lparr>ordinal := n\<rparr>)) \<or>
         ((\<forall>n. 1 \<le> n \<and> n \<le> ordinal t \<longrightarrow> map_of series (format_Ymd year n) = None) \<and>
          walk_back year (JObj series) t = Inl OverflowError)"
proof -
  have pre: "\<forall>n. 1 \<le> n \<and> n \<le> ordinal t \<longrightarrow> (\<exists>b. py_in (format_Ymd year n) (JObj series) = Inr b)"
    by simp
  have c: "py_in k (JObj series) = Inr True \<longleftrightarrow> map_of series k \<noteq> None"
          "py_in k (JObj series) = Inr False \<longleftrightarrow> map_of series k = None" for k
    by simp_all
  from walk_back_result [OF assms pre] show ?thesis
    unfolding c .
qed

text \<open>
  Claim C6, as the code has it.  On a valid date and a series that is a dict, the loop
  always ends, however the platform prints a year.  When some day on or before the
  requested one has its key (the date as \<open>strftime\<close> prints it) in the series, it stops
  at the nearest such day and returns the datetime moved to it; when none has, it steps
  back to 0001-01-01 and ends with the \<open>OverflowError\<close> of the subtraction that would
  leave the range of \<open>datetime\<close>.  That range is the only bound on the search.
\<close>

theorem walk_back_terminates:
  assumes "1 \<le> ordinal t" "ordinal t \<le> MAXORDINAL"
  shows "((\<exists>n. 1 \<le> n \<and> n \<le> ordinal t \<and> map_of series (format_Ymd year n) \<noteq> None) \<longrightarrow>
            (\<exists>n. 1 \<le> n \<and> n \<le> ordinal t \<and> map_of series (format_Ymd year n) \<noteq> None \<and>
                 (\<forall>n'. n < n' \<and> n' \<le> ordinal t \<longrightarrow> map_of series (format_Ymd year n') = None) \<and>
                 walk_back year (JObj series) t = Inr (t\<lparr>ordinal := n\<rparr>))) \<and>
         (\<not> (\<exists>n. 1 \<le> n \<and> n \<le> ordinal t \<and> map_of series (format_Ymd year n) \<noteq> None) \<longrightarrow>
            walk_back year (JObj series) t = Inl OverflowError)"
proof (intro conjI impI)
  assume "\<exists>n. 1 \<le> n \<and> n \<le> ordinal t \<and> map_of series (format_Ymd year n) \<noteq> None"
  then obtain n where n: "1 \<le> n \<and> n \<le> ordinal t \<and> map_of series (format_Ymd year n) \<noteq> None" ..
  from walk_back_dict_cases [OF assms, where series = series and year = year]
  show "\<exists>n. 1 \<le> n \<and> n \<le> ordinal t \<and> map_of series (format_Ymd year n) \<noteq> None \<and>
                 (\<forall>n'. n < n' \<and> n' \<le> ordinal t \<longrightarrow> map_of series (format_Ymd year n') = None) \<and>
                 walk_back year (JObj series) t = Inr (t\<lparr>ordinal := n\<rparr>)"
  proof
    assume "(\<forall>n. 1 \<le> n \<and> n \<le> ordinal t \<longrightarrow> map_of series (format_Ymd year n) = None) \<and>
          walk_back year (JObj series) t = Inl OverflowError"
    then have "1 \<le> n \<and> n \<le> ordinal t \<longrightarrow> map_of series (format_Ymd year n) = None" by simp
    with n show ?thesis by simp
  qed
next
  assume no: "\<not> (\<exists>n. 1 \<le> n \<and> n \<le> ordinal t \<and> map_of series (format_Ymd year n) \<noteq> None)"
  from walk_back_dict_cases [OF assms, where series = series and year = year]
  show "walk_back year (JObj series) t = Inl OverflowError"
  proof
    assume "\<exists>n. 1 \<le> n \<and> n \<le> ordinal t \<and> map_of series (format_Ymd year n) \<noteq> None \<and>
              (\<forall>n'. n < n' \<and> n' \<le> ordinal t \<longrightarrow> map_of series (format_Ymd year n') = None) \<and>
              walk_back year (JObj series) t = Inr (t\<lparr>ordinal := n\<rparr>)"
    then obtain n where "1 \<le> n \<and> n \<le> ordinal t \<and> map_of series (format_Ymd year n) \<noteq> None \<and>
              (\<forall>n'. n < n' \<and> n' \<le> ordinal t \<longrightarrow> map_of series (format_Ymd year n') = None) \<and>
              walk_back year (JObj series) t = Inr (t\<lparr>ordinal := n\<rparr>)" ..
    then have "1 \<le> n \<and> n \<le> ordinal t \<and> map_of series (format_Ymd year n) \<noteq> None" by simp
    then have "\<exists>n. 1 \<le> n \<and> n \<le> ordinal t \<and> map_of series (format_Ymd year n) \<noteq> None" ..
    with no show ?thesis ..
  next
    assume "(\<forall>n. 1 \<le> n \<and> n \<le> ordinal t \<longrightarrow> map_of series (format_Ymd year n) = None) \<and>
          walk_back year (JObj series) t = Inl OverflowError"
    then show ?thesis ..
  qed
qed

section \<open>Verification: the historical price\<close>

lemma historical_from_data_requests:
  "requests (snd (historical_from_data data t b w1)) = requests w1"
  by (simp add: historical_from_data_def logging_def split: sum.split bool.split)

text \<open>The function up to the test of the kind, for an aware datetime and a sound clock.\<close>

lemma get_historical_price_aware:
  assumes "parse_ticker (word_class w) ticker = Inr (kind, symbol, base)" "tzinfo time0 = Some z"
    and "130 < fst (clock w)" "fst (clock w) - 130 \<le> MAXORDINAL"
  shows "get_historical_price ticker time0 w =
           (if kind = ''price''
            then (case do_fetch (daily_params symbol (older_than_130_days time0 z w)) w of
                    (Inl e, w1) \<Rightarrow> (Inl e, w1)
                  | (Inr data, w1) \<Rightarrow> historical_from_data data time0 base w1)
            else (Inr None, logging (LogInfo ''Currency exchange not implemented yet.'') w))"
proof -
  have l: "sub_days (now_utc w) 130 = Inr ((now_utc w)\<lparr>ordinal := fst (clock w) - 130\<rparr>)"
    using assms(3,4) by (simp add: sub_days_def now_utc_def)
  have c: "dt_less time0 ((now_utc w)\<lparr>ordinal := fst (clock w) - 130\<rparr>) =
             Inr (older_than_130_days time0 z w)"
    using assms(2)
    by (simp add: dt_less_def older_than_130_days_def now_utc_def wall_usec_def tzutc_def
                  algebra_simps)
  show ?thesis
    by (simp add: get_historical_price_def assms(1) l c daily_params_def Let_def)
qed

lemma get_historical_price_naive:
  assumes "tzinfo time0 = None"
  shows "requests (snd (get_historical_price ticker time0 w)) = requests w"
  using assms
  by (simp add: get_historical_price_def dt_less_def now_utc_def sub_days_def
           split: sum.split prod.split)

lemma get_historical_price_clock:
  assumes "\<not> (130 < fst (clock w) \<and> fst (clock w) - 130 \<le> MAXORDINAL)"
  shows "requests (snd (get_historical_price ticker time0 w)) = requests w"
proof -
  have "sub_days (now_utc w) 130 = Inl OverflowError" 
    using assms by (simp add: sub_days_def now_utc_def)
  then show ?thesis
  by (simp add: get_historical_price_def split: sum.split prod.split)
qed

lemma get_historical_price_sent:
  "requests (snd (get_historical_price ticker time0 w)) = requests w \<or>
   (\<exists>symbol z. tzinfo time0 = Some z \<and>
      requests (snd (get_historical_price ticker time0 w)) =
        requests (snd (do_fetch (daily_params symbol (older_than_130_days time0 z w)) w)))"
proof (cases "parse_ticker (word_class w) ticker")
  case (Inl e)
  then show ?thesis by (simp add: get_historical_price_def)
next
  case (Inr r)
  obtain kind symbol base where r: "r = (kind, symbol, base)" by (cases r) auto
  show ?thesis
  proof (cases "tzinfo time0")
    case None
    then show ?thesis by (simp add: get_historical_price_naive)
  next
    case (Some z)
    show ?thesis
    proof (cases "130 < fst (clock w) \<and> fst (clock w) - 130 \<le> MAXORDINAL")
      case False
      then show ?thesis by (simp add: get_historical_price_clock)
    next
      case True
      with Inr r Some
      have e: "get_historical_price ticker time0 w =
           (if kind = ''price''
            then (case do_fetch (daily_params symbol (older_than_130_days time0 z w)) w of
                    (Inl e, w1) \<Rightarrow> (Inl e, w1)
                  | (Inr data, w1) \<Rightarrow> historical_from_data data time0 base w1)
            else (Inr None, logging (LogInfo ''Currency exchange not implemented yet.'') w))"
        using get_historical_price_aware [of w ticker kind symbol base time0 z] by simp
      show ?thesis
      proof (cases "kind = ''price''")
        case False
        with e show ?thesis by (simp add: logging_def)
      next
        case True
        obtain res w1 where f: "do_fetch (daily_params symbol (older_than_130_days time0 z w)) w = (res, w1)"
          by (cases "do_fetch (daily_params symbol (older_than_130_days time0 z w)) w") auto
        from e True f have "requests (snd (get_historical_price ticker time0 w)) = requests w1"
          by (cases res) (simp_all add: historical_from_data_requests)
        with f have "requests (snd (get_historical_price ticker time0 w)) =
            requests (snd (do_fetch (daily_params symbol (older_than_130_days time0 z w)) w))"
          by simp
        with Some show ?thesis by blast
      qed
    qed
  qed
qed

text \<open>
  Claim C7.  For a ticker of kind \<open>fx\<close> the historical price sends no request, whatever
  the datetime and the clock; and for a timezone-aware datetime (an instant) and a clock
  within the range of \<open>datetime\<close> it returns \<open>None\<close>, having logged that the currency
  exchange is not implemented.
\<close>

theorem historical_fx_absent:
  assumes "parse_ticker (word_class w) ticker = Inr (''fx'', symbol, base)"
  shows "requests (snd (get_historical_price ticker time0 w)) = requests w \<and>
         (tzinfo time0 = Some z \<and> 130 < fst (clock w) \<and> fst (clock w) \<le> MAXORDINAL \<longrightarrow>
            get_historical_price ticker time0 w =
              (Inr None, logging (LogInfo ''Currency exchange not implemented yet.'') w))"
proof
  show "requests (snd (get_historical_price ticker time0 w)) = requests w"
  proof (cases "tzinfo time0")
    case None
    then show ?thesis by (simp add: get_historical_price_naive)
  next
    case (Some z')
    show ?thesis
    proof (cases "130 < fst (clock w) \<and> fst (clock w) - 130 \<le> MAXORDINAL")
      case False
      then show ?thesis by (simp add: get_historical_price_clock)
    next
      case True
      then have "get_historical_price ticker time0 w =
              (Inr None, logging (LogInfo ''Currency exchange not implemented yet.'') w)"
        using get_historical_price_aware [OF assms Some] by simp
      then show ?thesis by (simp add: logging_def)
    qed
  qed
  show "tzinfo time0 = Some z \<and> 130 < fst (clock w) \<and> fst (clock w) \<le> MAXORDINAL \<longrightarrow>
            get_historical_price ticker time0 w =
              (Inr None, logging (LogInfo ''Currency exchange not implemented yet.'') w)"
    using get_historical_price_aware [OF assms, of time0 z] by simp
qed

text \<open>
  Claim C9.  Every request a historical lookup sends has the \<open>outputSize\<close> parameter
  \<open>full\<close> when the requested instant is more than 130 days before the clock's reading
  and \<open>compact\<close> otherwise; and a lookup for a \<open>price\<close> ticker, with the key in the
  environment, does send such a request first.
\<close>

theorem historical_output_size:
  "(\<forall>r \<in> set (drop (length (requests w)) (requests (snd (get_historical_price ticker time0 w)))).
      \<exists>z. tzinfo time0 = Some z \<and>
          map_of (snd r) ''outputSize'' =
            Some (if older_than_130_days time0 z w then ''full'' else ''compact'')) \<and>
   (parse_ticker (word_class w) ticker = Inr (''price'', symbol, base) \<and> tzinfo time0 = Some z \<and>
    130 < fst (clock w) \<and> fst (clock w) \<le> MAXORDINAL \<and>
    environ w ''ALPHAVANTAGE_API_KEY'' = Some key \<longrightarrow>
      (\<exists>rest. requests (snd (get_historical_price ticker time0 w)) =
         requests w @
         (query_url, daily_params symbol (older_than_130_days time0 z w) @ [(''apikey'', key)]) # rest))"
proof (intro conjI impI)
  have size: "map_of (AList.update ''apikey'' key' (daily_params s old)) ''outputSize'' =
                Some (if old then ''full'' else ''compact'')" for key' s old
    by (simp add: update_conv' daily_params_def)
  from get_historical_price_sent [of ticker time0 w]
  show "\<forall>r \<in> set (drop (length (requests w)) (requests (snd (get_historical_price ticker time0 w)))).
      \<exists>z. tzinfo time0 = Some z \<and>
          map_of (snd r) ''outputSize'' =
            Some (if older_than_130_days time0 z w then ''full'' else ''compact'')"
  proof
    assume "requests (snd (get_historical_price ticker time0 w)) = requests w"
    then show ?thesis by simp
  next
    assume "\<exists>symbol z. tzinfo time0 = Some z \<and>
      requests (snd (get_historical_price ticker time0 w)) =
        requests (snd (do_fetch (daily_params symbol (older_than_130_days time0 z w)) w))"
    then obtain s z' where z: "tzinfo time0 = Some z'"
      and r: "requests (snd (get_historical_price ticker time0 w)) =
        requests (snd (do_fetch (daily_params s (older_than_130_days time0 z' w)) w))" by blast
    from do_fetch_sent [of "daily_params s (older_than_130_days time0 z' w)" w] r z size
    show ?thesis by auto
  qed
next
  assume h: "parse_ticker (word_class w) ticker = Inr (''price'', symbol, base) \<and> tzinfo time0 = Some z \<and>
    130 < fst (clock w) \<and> fst (clock w) \<le> MAXORDINAL \<and>
    environ w ''ALPHAVANTAGE_API_KEY'' = Some key"
  let ?ps = "daily_params symbol (older_than_130_days time0 z w)"
  have u: "AList.update ''apikey'' key ?ps = ?ps @ [(''apikey'', key)]"
    by (simp add: daily_params_def)
  obtain res w1 where f: "do_fetch ?ps w = (res, w1)" by (cases "do_fetch ?ps w") auto
  from h have "get_historical_price ticker time0 w =
      (case do_fetch ?ps w of (Inl e, w1) \<Rightarrow> (Inl e, w1)
       | (Inr data, w1) \<Rightarrow> historical_from_data data time0 base w1)"
    using get_historical_price_aware [of w ticker "''price''" symbol base time0 z] by simp
  with f have "requests (snd (get_historical_price ticker time0 w)) = requests w1"
    by (cases res) (simp_all add: historical_from_data_requests)
  with f have "requests (snd (get_historical_price ticker time0 w)) = requests (snd (do_fetch ?ps w))"
    by simp
  with do_fetch_sent [of ?ps w] h u
  show "\<exists>rest. requests (snd (get_historical_price ticker time0 w)) =
         requests w @ (query_url, ?ps @ [(''apikey'', key)]) # rest"
    by auto
qed

text \<open>
  Claim C8, as the code has it.  For a \<open>price\<close> ticker and a fetched body that is an
  object: an \<open>Information\<close> string that mentions a premium endpoint gives \<open>None\<close> and
  an info record in the log; a body without the key \<open>Time Series (Daily)\<close> whose
  \<open>Information\<close> is absent, or is a string without such a mention, gives \<open>None\<close> and an
  error record with the body; neither raises.  The two records differ, and a body with
  the series and no notice never gives \<open>None\<close> and logs nothing.  The condition on
  \<open>Information\<close> is needed: line 132 calls \<open>lower\<close> on whatever value the key has.
\<close>

theorem historical_no_data:
  assumes "parse_ticker (word_class w) ticker = Inr (''price'', symbol, base)" "tzinfo time0 = Some z"
    and "130 < fst (clock w)" "fst (clock w) \<le> MAXORDINAL"
    and "do_fetch (daily_params symbol (older_than_130_days time0 z w)) w = (Inr (JObj kvs), w1)"
  shows
  "(map_of kvs ''Information'' = Some (JStr info) \<and>
    str_contains ''premium endpoint'' (map lower_char info) \<longrightarrow>
      get_historical_price ticker time0 w =
        (Inr None, logging (LogInfo ''Premium endpoint API key required.'') w1)) \<and>
   (map_of kvs ''Time Series (Daily)'' = None \<and>
    (map_of kvs ''Information'' = None \<or>
     map_of kvs ''Information'' = Some (JStr info) \<and>
     \<not> str_contains ''premium endpoint'' (map lower_char info)) \<longrightarrow>
      get_historical_price ticker time0 w =
        (Inr None, logging (LogError ''Price data not found when expected: %s'' (JObj kvs)) w1)) \<and>
   (premium_required (JObj kvs) = Inr False \<and> map_of kvs ''Time Series (Daily)'' \<noteq> None \<longrightarrow>
      fst (get_historical_price ticker time0 w) \<noteq> Inr None \<and>
      logged (snd (get_historical_price ticker time0 w)) = logged w1) \<and>
   LogInfo ''Premium endpoint API key required.'' \<noteq>
     LogError ''Price data not found when expected: %s'' (JObj kvs)"
proof -
  have e: "get_historical_price ticker time0 w = historical_from_data (JObj kvs) time0 base w1"
    using get_historical_price_aware [OF assms(1,2,3)] assms(4,5) by simp
  show ?thesis
  proof (intro conjI impI)
    assume "map_of kvs ''Information'' = Some (JStr info) \<and>
      str_contains ''premium endpoint'' (map lower_char info)"
    then show "get_historical_price ticker time0 w =
        (Inr None, logging (LogInfo ''Premium endpoint API key required.'') w1)"
      by (simp add: e historical_from_data_def premium_required_def)
  next
    assume "map_of kvs ''Time Series (Daily)'' = None \<and>
      (map_of kvs ''Information'' = None \<or>
       map_of kvs ''Information'' = Some (JStr info) \<and>
       \<not> str_contains ''premium endpoint'' (map lower_char info))"
    then show "get_historical_price ticker time0 w =
        (Inr None, logging (LogError ''Price data not found when expected: %s'' (JObj kvs)) w1)"
      by (auto simp add: e historical_from_data_def premium_required_def)
  next
    assume a: "premium_required (JObj kvs) = Inr False \<and> map_of kvs ''Time Series (Daily)'' \<noteq> None"
    then show "fst (get_historical_price ticker time0 w) \<noteq> Inr None"
      by (auto simp add: e historical_from_data_def split: sum.split)
    from a show "logged (snd (get_historical_price ticker time0 w)) = logged w1"
      by (auto simp add: e historical_from_data_def split: sum.split)
  qed simp
qed

lemma get_historical_price_found:
  assumes "parse_ticker (word_class w) ticker = Inr (''price'', symbol, base)" "tzinfo time0 = Some z"
    and "130 < fst (clock w)" "fst (clock w) \<le> MAXORDINAL"
    and "do_fetch (daily_params symbol (older_than_130_days time0 z w)) w = (Inr (JObj kvs), w1)"
    and "premium_required (JObj kvs) = Inr False"
    and "map_of kvs ''Time Series (Daily)'' = Some (JObj series)"
    and "1 \<le> n" "n \<le> ordinal time0" "ordinal time0 \<le> MAXORDINAL"
    and "map_of series (format_Ymd (strftime_Y w1) n) = Some day_data"
    and "\<forall>n'. n < n' \<and> n' \<le> ordinal time0 \<longrightarrow> map_of series (format_Ymd (strftime_Y w1) n') = None"
    and "py_getitem day_data ''4. close'' = Inr close" "Decimal w1 close = Inr p"
  shows "get_historical_price ticker time0 w =
           (Inr (Some \<lparr>price = p, time = time0\<lparr>ordinal := n\<rparr>, quote_currency = base\<rparr>), w1)"
proof -
  have e: "get_historical_price ticker time0 w = historical_from_data (JObj kvs) time0 base w1"
    using get_historical_price_aware [OF assms(1,2,3)] assms(4,5) by simp
  have wb: "walk_back (strftime_Y w1) (JObj series) time0 = Inr (time0\<lparr>ordinal := n\<rparr>)"
    using walk_back_dict [of n time0 series "strftime_Y w1"] assms(8-12) by simp
  show ?thesis
    by (simp add: e historical_from_data_def assms(6,7,11,13,14) wb strftime_Ymd_def)
qed

text \<open>
  Claim C2, as the code has it.  The key of a day is its date as \<open>strftime\<close> prints it
  in the world the lookup runs in.  For a \<open>price\<close> ticker whose series lacks the key of
  the requested day (and of every day down to an earlier day \<open>n\<close>, whose key it has), the
  result is the close of day \<open>n\<close>, the nearest earlier present day, with the base of the
  ticker as the quote currency; its timestamp is the requested datetime moved back to
  day \<open>n\<close> (same time of day, same zone), which is not the requested instant.
\<close>

theorem historical_date_fallback:
  assumes "parse_ticker (word_class w) ticker = Inr (''price'', symbol, base)" "tzinfo time0 = Some z"
    and "130 < fst (clock w)" "fst (clock w) \<le> MAXORDINAL"
    and "do_fetch (daily_params symbol (older_than_130_days time0 z w)) w = (Inr (JObj kvs), w1)"
    and "premium_required (JObj kvs) = Inr False"
    and "map_of kvs ''Time Series (Daily)'' = Some (JObj series)"
    and "1 \<le> n" "n < ordinal time0" "ordinal time0 \<le> MAXORDINAL"
    and "map_of series (format_Ymd (strftime_Y w1) n) = Some day_data"
    and "\<forall>n'. n < n' \<and> n' \<le> ordinal time0 \<longrightarrow> map_of series (format_Ymd (strftime_Y w1) n') = None"
    and "py_getitem day_data ''4. close'' = Inr close" "Decimal w1 close = Inr p"
  shows "get_historical_price ticker time0 w =
           (Inr (Some \<lparr>price = p, time = time0\<lparr>ordinal := n\<rparr>, quote_currency = base\<rparr>), w1) \<and>
         time0\<lparr>ordinal := n\<rparr> \<noteq> time0"
proof
  from assms(9) have le: "n \<le> ordinal time0" by simp
  from get_historical_price_found [OF assms(1-8) le assms(10-14)]
  show "get_historical_price ticker time0 w =
           (Inr (Some \<lparr>price = p, time = time0\<lparr>ordinal := n\<rparr>, quote_currency = base\<rparr>), w1)" .
  from assms(9) have "ordinal (time0\<lparr>ordinal := n\<rparr>) \<noteq> ordinal time0" by simp
  then show "time0\<lparr>ordinal := n\<rparr> \<noteq> time0" by metis
qed

section \<open>Verification: the latest exchange rate\<close>

lemma get_latest_price_fx:
  assumes "parse_ticker (word_class w) ticker = Inr (''fx'', symbol, base)"
    and "do_fetch (fx_params symbol base) w = (Inr data, w1)"
    and "py_getitem data ''Realtime Currency Exchange Rate'' = Inr price_data"
    and "py_getitem price_data ''5. Exchange Rate'' = Inr rate" "Decimal w1 rate = Inr p"
    and "py_getitem price_data ''6. Last Refreshed'' = Inr refreshed" "parse w1 refreshed = Inr date"
    and "py_getitem price_data ''7. Time Zone'' = Inr zone"
  shows "get_latest_price ticker w =
           (case gettz w1 zone of
              Inl e \<Rightarrow> (Inl e, w1)
            | Inr found \<Rightarrow>
                (Inr \<lparr>price = p, time = date\<lparr>tzinfo := found\<rparr>, quote_currency = base\<rparr>, w1))"
  using assms(2-)
  by (simp add: get_latest_price_def assms(1) fx_params_def split: sum.split)

text \<open>
  Claim C3, as the code has it.  For a latest exchange rate the \<open>7. Time Zone\<close> field is
  handed to \<open>tz.gettz\<close> and what comes back replaces the zone of the parsed timestamp:
  the zone when the name is resolved, and no zone at all, without any error, when
  \<open>gettz\<close> answers \<open>None\<close>; only an exception of \<open>gettz\<close> itself is an error.
\<close>

theorem latest_fx_time_zone:
  assumes "parse_ticker (word_class w) ticker = Inr (''fx'', symbol, base)"
    and "do_fetch (fx_params symbol base) w = (Inr data, w1)"
    and "py_getitem data ''Realtime Currency Exchange Rate'' = Inr price_data"
    and "py_getitem price_data ''5. Exchange Rate'' = Inr rate" "Decimal w1 rate = Inr p"
    and "py_getitem price_data ''6. Last Refreshed'' = Inr refreshed" "parse w1 refreshed = Inr date"
    and "py_getitem price_data ''7. Time Zone'' = Inr zone"
  shows "(gettz w1 zone = Inr (Some z) \<longrightarrow>
            get_latest_price ticker w =
              (Inr \<lparr>price = p, time = date\<lparr>tzinfo := Some z\<rparr>, quote_currency = base\<rparr>, w1)) \<and>
         (gettz w1 zone = Inr None \<longrightarrow>
            get_latest_price ticker w =
              (Inr \<lparr>price = p, time = date\<lparr>tzinfo := None\<rparr>, quote_currency = base\<rparr>, w1)) \<and>
         (gettz w1 zone = Inl e \<longrightarrow> get_latest_price ticker w = (Inl e, w1))"
  using get_latest_price_fx [OF assms] by simp

section \<open>The theorems in the worlds of the unit tests\<close>

lemma canned_world_sel:
  "environ (canned_world b) ''ALPHAVANTAGE_API_KEY'' = Some ''foo''"
  "requests (canned_world b) = []"
  "clock (canned_world b) = (739349, 0)"
  "server (canned_world b) n u ps = Inr (json_response 200 b)"
  "word_class (canned_world b) = latin1_word"
  by (simp_all add: canned_world_def test_world_def test_environ_def)

lemma do_fetch_canned:
  assumes "py_in ''Note'' b = Inr False" "py_in ''Error Message'' b = Inr False"
  shows "do_fetch ps (canned_world b) =
           (Inr b, (canned_world b)\<lparr>requests := [(query_url, AList.update ''apikey'' ''foo'' ps)]\<rparr>)"
proof -
  have "do_fetch ps (canned_world b) =
          (check_response (json_response 200 b) b,
           (canned_world b)\<lparr>requests := requests (canned_world b) @
                                  [(query_url, AList.update ''apikey'' ''foo'' ps)]\<rparr>)"
    by (rule do_fetch_first) (simp_all add: canned_world_sel assms json_response_def)
  then show ?thesis
    by (simp add: check_response_def assms canned_world_sel json_response_def)
qed

lemma canned_world_lib:
  "Decimal ((canned_world b)\<lparr>requests := rs\<rparr>) = test_Decimal"
  "parse ((canned_world b)\<lparr>requests := rs\<rparr>) = test_parse"
  "gettz ((canned_world b)\<lparr>requests := rs\<rparr>) = test_gettz"
  "strftime_Y ((canned_world b)\<lparr>requests := rs\<rparr>) = glibc_year"
  by (simp_all add: canned_world_def test_world_def)

lemma canned_clock: "130 < fst (clock (canned_world b))" "fst (clock (canned_world b)) \<le> MAXORDINAL"
  by (simp_all add: canned_world_sel MAXORDINAL_def)

lemmas date_eval = format_Ymd_def ord2ymd_def Let_def DAYS_BEFORE_MONTH_def DAYS_IN_MONTH_def
  zero_pad2_def zero_pad4_def digit_def glibc_year_def

lemma april_2025:
  "format_Ymd glibc_year 739347 = ''2025-04-06''" "format_Ymd glibc_year 739346 = ''2025-04-05''"
  "format_Ymd glibc_year 739345 = ''2025-04-04''"
  by (simp_all add: date_eval)

lemma weekend_absent:
  "\<forall>n'. 739345 < n' \<and> n' \<le> ordinal sunday_noon \<longrightarrow> map_of tsda_series (format_Ymd glibc_year n') = None"
proof (intro allI impI)
  fix n' :: int
  assume "739345 < n' \<and> n' \<le> ordinal sunday_noon"
  then have "n' = 739346 \<or> n' = 739347" by (simp add: sunday_noon_def) arith
  then show "map_of tsda_series (format_Ymd glibc_year n') = None"
    by (auto simp: april_2025 tsda_series_def)
qed

lemma ticker_eval:
  "parse_ticker (word_class (canned_world b)) ''price:IBM:USD'' = Inr (''price'', ''IBM'', ''USD'')"
  "parse_ticker (word_class (canned_world b)) ''fx:USD:CHF'' = Inr (''fx'', ''USD'', ''CHF'')"
  "parse_ticker latin1_word ''price:IBM:USD'' = Inr (''price'', ''IBM'', ''USD'')"
  "parse_ticker latin1_word ''fx:USD:CHF'' = Inr (''fx'', ''USD'', ''CHF'')"
  by (simp_all add: canned_world_sel parse_ticker_def match_kind_def latin1_word_def
        latin1_word_chars_def newline_def)

lemma tsda_plain:
  "py_in ''Note'' (JObj response_tsda) = Inr False"
  "py_in ''Error Message'' (JObj response_tsda) = Inr False"
  "premium_required (JObj response_tsda) = Inr False"
  "map_of response_tsda ''Time Series (Daily)'' = Some (JObj tsda_series)"
  by (simp_all add: response_tsda_def premium_required_def)

lemma sunday_fields: "tzinfo sunday_noon = Some tzutc" "1 \<le> ordinal sunday_noon"
  "ordinal sunday_noon \<le> MAXORDINAL" "739345 < ordinal sunday_noon"
  "739345 \<le> ordinal sunday_noon"
  by (simp_all add: sunday_noon_def MAXORDINAL_def)

lemma sunday_price:
  "get_historical_price ''price:IBM:USD'' sunday_noon (canned_world (JObj response_tsda)) =
     (Inr (Some \<lparr>price = ''227.48'', time = sunday_noon\<lparr>ordinal := 739345\<rparr>,
                 quote_currency = ''USD''\<rparr>),
      (canned_world (JObj response_tsda))
        \<lparr>requests := [(query_url, AList.update ''apikey'' ''foo''
            (daily_params ''IBM''
               (older_than_130_days sunday_noon tzutc (canned_world (JObj response_tsda)))))]\<rparr>)"
proof -
  let ?w = "canned_world (JObj response_tsda)"
  let ?w1 = "?w\<lparr>requests := [(query_url, AList.update ''apikey'' ''foo''
            (daily_params ''IBM'' (older_than_130_days sunday_noon tzutc ?w)))]\<rparr>"
  have f: "do_fetch (daily_params ''IBM'' (older_than_130_days sunday_noon tzutc ?w)) ?w =
             (Inr (JObj response_tsda), ?w1)"
    by (rule do_fetch_canned) (rule tsda_plain)+
  have d: "map_of tsda_series (format_Ymd glibc_year 739345) =
          Some (JObj [(''1. open'', JStr ''238.0''), (''4. close'', JStr ''227.48'')])"
    by (simp add: april_2025 tsda_series_def)
  have c: "py_getitem (JObj [(''1. open'', JStr ''238.0''), (''4. close'', JStr ''227.48'')])
             ''4. close'' = Inr (JStr ''227.48'')" by simp
  have p: "test_Decimal (JStr ''227.48'') = Inr ''227.48''" by (simp add: test_Decimal_def)
  have one: "(1::int) \<le> 739345" by simp
  from get_historical_price_found
         [OF ticker_eval(1) sunday_fields(1) canned_clock f tsda_plain(3) tsda_plain(4),
          unfolded canned_world_lib,
          OF one sunday_fields(5) sunday_fields(3) d weekend_absent c p]
  show ?thesis .
qed

text \<open>
  The claim C2 as stated fails on the series of the unit test asked for Sunday
  2025-04-06, 12:00 UTC: the close is that of Friday 2025-04-04, and so is the date of
  the timestamp returned.
\<close>

theorem historical_time_is_matched_day:
  "fst (get_historical_price ''price:IBM:USD'' sunday_noon (canned_world (JObj response_tsda))) =
     Inr (Some \<lparr>price = ''227.48'',
                time = \<lparr>ordinal = 739345, usec = 43200000000, tzinfo = Some tzutc\<rparr>,
                quote_currency = ''USD''\<rparr>) \<and>
   \<lparr>ordinal = 739345, usec = 43200000000, tzinfo = Some tzutc\<rparr> \<noteq> sunday_noon \<and>
   strftime_Ymd glibc_year sunday_noon = ''2025-04-06'' \<and>
   map_of tsda_series ''2025-04-06'' = None \<and>
   map_of tsda_series ''2025-04-04'' \<noteq> None"
proof (intro conjI)
  show "fst (get_historical_price ''price:IBM:USD'' sunday_noon (canned_world (JObj response_tsda))) =
     Inr (Some \<lparr>price = ''227.48'',
                time = \<lparr>ordinal = 739345, usec = 43200000000, tzinfo = Some tzutc\<rparr>,
                quote_currency = ''USD''\<rparr>)"
    by (simp add: sunday_price) (simp add: sunday_noon_def)
  show "strftime_Ymd glibc_year sunday_noon = ''2025-04-06''"
    by (simp add: strftime_Ymd_def sunday_noon_def april_2025)
qed (simp_all add: sunday_noon_def tsda_series_def)

text \<open>The same lookup, through the theorem.\<close>

theorem historical_date_fallback_witness:
  "parse_ticker latin1_word ''price:IBM:USD'' = Inr (''price'', ''IBM'', ''USD'') \<and>
   tzinfo sunday_noon = Some tzutc \<and>
   map_of response_tsda ''Time Series (Daily)'' = Some (JObj tsda_series) \<and>
   739345 < ordinal sunday_noon \<and>
   map_of tsda_series (format_Ymd glibc_year 739347) = None \<and>
   map_of tsda_series (format_Ymd glibc_year 739346) = None \<and>
   map_of tsda_series (format_Ymd glibc_year 739345) =
     Some (JObj [(''1. open'', JStr ''238.0''), (''4. close'', JStr ''227.48'')]) \<and>
   fst (get_historical_price ''price:IBM:USD'' sunday_noon (canned_world (JObj response_tsda))) =
     Inr (Some \<lparr>price = ''227.48'', time = sunday_noon\<lparr>ordinal := 739345\<rparr>,
                 quote_currency = ''USD''\<rparr>) \<and>
   sunday_noon\<lparr>ordinal := 739345\<rparr> \<noteq> sunday_noon"
proof -
  let ?w = "canned_world (JObj response_tsda)"
  let ?w1 = "?w\<lparr>requests := [(query_url, AList.update ''apikey'' ''foo''
            (daily_params ''IBM'' (older_than_130_days sunday_noon tzutc ?w)))]\<rparr>"
  have f: "do_fetch (daily_params ''IBM'' (older_than_130_days sunday_noon tzutc ?w)) ?w =
             (Inr (JObj response_tsda), ?w1)"
    by (rule do_fetch_canned) (rule tsda_plain)+
  have d: "map_of tsda_series (format_Ymd glibc_year 739345) =
             Some (JObj [(''1. open'', JStr ''238.0''), (''4. close'', JStr ''227.48'')])"
    and a: "map_of tsda_series (format_Ymd glibc_year 739347) = None"
           "map_of tsda_series (format_Ymd glibc_year 739346) = None"
    by (simp_all add: april_2025 tsda_series_def)
  have c: "py_getitem (JObj [(''1. open'', JStr ''238.0''), (''4. close'', JStr ''227.48'')])
             ''4. close'' = Inr (JStr ''227.48'')" by simp
  have p: "test_Decimal (JStr ''227.48'') = Inr ''227.48''" by (simp add: test_Decimal_def)
  have one: "(1::int) \<le> 739345" by simp
  from historical_date_fallback
         [OF ticker_eval(1) sunday_fields(1) canned_clock f tsda_plain(3) tsda_plain(4),
          unfolded canned_world_lib,
          OF one sunday_fields(4) sunday_fields(3) d weekend_absent c p]
       ticker_eval(3) sunday_fields tsda_plain(4) d a
  show ?thesis by simp
qed

text \<open>The loop on the series of the unit test and on an empty series.\<close>

theorem walk_back_terminates_witness:
  "1 \<le> ordinal sunday_noon \<and> ordinal sunday_noon \<le> MAXORDINAL \<and>
   739345 \<le> ordinal sunday_noon \<and> map_of tsda_series (format_Ymd glibc_year 739345) \<noteq> None \<and>
   walk_back glibc_year (JObj tsda_series) sunday_noon = Inr (sunday_noon\<lparr>ordinal := 739345\<rparr>) \<and>
   (\<exists>n. walk_back glibc_year (JObj tsda_series) sunday_noon = Inr (sunday_noon\<lparr>ordinal := n\<rparr>)) \<and>
   walk_back glibc_year (JObj []) sunday_noon = Inl OverflowError"
proof -
  have h: "1 \<le> (739345::int) \<and> 739345 \<le> ordinal sunday_noon \<and>
           map_of tsda_series (format_Ymd glibc_year 739345) \<noteq> None"
    by (simp add: sunday_fields april_2025 tsda_series_def)
  then have ex: "\<exists>n. 1 \<le> n \<and> n \<le> ordinal sunday_noon \<and> map_of tsda_series (format_Ymd glibc_year n) \<noteq> None" ..
  have no: "\<not> (\<exists>n. 1 \<le> n \<and> n \<le> ordinal sunday_noon \<and> map_of [] (format_Ymd glibc_year n) \<noteq> (None::json option))"
    by simp
  have w: "walk_back glibc_year (JObj tsda_series) sunday_noon = Inr (sunday_noon\<lparr>ordinal := 739345\<rparr>)"
  proof (rule walk_back_dict [OF _ sunday_fields(5) sunday_fields(3) _ weekend_absent])
    show "map_of tsda_series (format_Ymd glibc_year 739345) \<noteq> None" using h by simp
  qed simp
  from walk_back_terminates [OF sunday_fields(2,3), where series = tsda_series and year = glibc_year] ex
  have "\<exists>n. 1 \<le> n \<and> n \<le> ordinal sunday_noon \<and> map_of tsda_series (format_Ymd glibc_year n) \<noteq> None \<and>
          (\<forall>n'. n < n' \<and> n' \<le> ordinal sunday_noon \<longrightarrow> map_of tsda_series (format_Ymd glibc_year n') = None) \<and>
          walk_back glibc_year (JObj tsda_series) sunday_noon = Inr (sunday_noon\<lparr>ordinal := n\<rparr>)"
    by simp
  then obtain n where "1 \<le> n \<and> n \<le> ordinal sunday_noon \<and> map_of tsda_series (format_Ymd glibc_year n) \<noteq> None \<and>
          (\<forall>n'. n < n' \<and> n' \<le> ordinal sunday_noon \<longrightarrow> map_of tsda_series (format_Ymd glibc_year n') = None) \<and>
          walk_back glibc_year (JObj tsda_series) sunday_noon = Inr (sunday_noon\<lparr>ordinal := n\<rparr>)" ..
  then have "walk_back glibc_year (JObj tsda_series) sunday_noon = Inr (sunday_noon\<lparr>ordinal := n\<rparr>)" by simp
  then have e: "\<exists>n. walk_back glibc_year (JObj tsda_series) sunday_noon = Inr (sunday_noon\<lparr>ordinal := n\<rparr>)" ..
  from walk_back_terminates [OF sunday_fields(2,3), where series = "[]" and year = glibc_year] no
  have o: "walk_back glibc_year (JObj []) sunday_noon = Inl OverflowError" by simp
  from h w e o sunday_fields(2,3) show ?thesis by simp
qed

text \<open>
  The claim C6 as stated fails on an empty series: the search from 2025-04-06 ends, with
  an \<open>OverflowError\<close>, and so does the historical lookup.
\<close>

theorem walk_back_empty_series:
  "walk_back glibc_year (JObj []) sunday_noon = Inl OverflowError \<and>
   fst (get_historical_price ''price:IBM:USD'' sunday_noon
          (canned_world (JObj [(''Time Series (Daily)'', JObj [])]))) = Inl OverflowError"
proof
  from walk_back_dict_cases [OF sunday_fields(2,3), where series = "[]" and year = glibc_year]
  show w: "walk_back glibc_year (JObj []) sunday_noon = Inl OverflowError" by simp
  let ?b = "JObj [(''Time Series (Daily)'', JObj [])]"
  let ?w = "canned_world ?b"
  let ?w1 = "?w\<lparr>requests := [(query_url, AList.update ''apikey'' ''foo''
            (daily_params ''IBM'' (older_than_130_days sunday_noon tzutc ?w)))]\<rparr>"
  have f: "do_fetch (daily_params ''IBM'' (older_than_130_days sunday_noon tzutc ?w)) ?w =
             (Inr ?b, ?w1)"
    by (rule do_fetch_canned) simp_all
  have c: "fst (clock ?w) - 130 \<le> MAXORDINAL" using canned_clock(2) [of ?b] by simp
  have "get_historical_price ''price:IBM:USD'' sunday_noon ?w =
          historical_from_data ?b sunday_noon ''USD'' ?w1"
    using get_historical_price_aware [OF ticker_eval(1) sunday_fields(1) canned_clock(1) c] f
    by simp
  then show "fst (get_historical_price ''price:IBM:USD'' sunday_noon ?w) = Inl OverflowError"
    by (simp add: historical_from_data_def premium_required_def canned_world_lib w)
qed

text \<open>An \<open>fx\<close> ticker in the world of the unit test.\<close>

theorem historical_fx_absent_witness:
  "parse_ticker latin1_word ''fx:USD:CHF'' = Inr (''fx'', ''USD'', ''CHF'') \<and>
   tzinfo sunday_noon = Some tzutc \<and>
   130 < fst (clock (canned_world (JObj response_tsda))) \<and>
   fst (clock (canned_world (JObj response_tsda))) \<le> MAXORDINAL \<and>
   get_historical_price ''fx:USD:CHF'' sunday_noon (canned_world (JObj response_tsda)) =
     (Inr None, logging (LogInfo ''Currency exchange not implemented yet.'')
                  (canned_world (JObj response_tsda))) \<and>
   requests (snd (get_historical_price ''fx:USD:CHF'' sunday_noon
                    (canned_world (JObj response_tsda)))) = []"
  using historical_fx_absent [OF ticker_eval(2) [of "JObj response_tsda"], of sunday_noon tzutc]
        ticker_eval(4) sunday_fields(1) canned_clock [of "JObj response_tsda"]
  by (simp add: canned_world_sel logging_def)

lemma clock_eval:
  "older_than_130_days new_year_2024 tzutc (canned_world b)"
  "\<not> older_than_130_days sunday_noon tzutc (canned_world b)"
  by (simp_all add: older_than_130_days_def wall_usec_def now_utc_def canned_world_sel
        new_year_2024_def sunday_noon_def tzutc_def)

lemma canned_historical:
  assumes "py_in ''Note'' b = Inr False" "py_in ''Error Message'' b = Inr False"
    and "tzinfo t = Some z"
  shows "do_fetch (daily_params ''IBM'' (older_than_130_days t z (canned_world b))) (canned_world b) =
           (Inr b, (canned_world b)\<lparr>requests := [(query_url,
              daily_params ''IBM'' (older_than_130_days t z (canned_world b)) @ [(''apikey'', ''foo'')])]\<rparr>)"
    and "get_historical_price ''price:IBM:USD'' t (canned_world b) =
           historical_from_data b t ''USD''
             ((canned_world b)\<lparr>requests := [(query_url,
                daily_params ''IBM'' (older_than_130_days t z (canned_world b)) @ [(''apikey'', ''foo'')])]\<rparr>)"
proof -
  have u: "AList.update ''apikey'' ''foo'' (daily_params ''IBM'' old) =
             daily_params ''IBM'' old @ [(''apikey'', ''foo'')]" for old
    by (simp add: daily_params_def)
  show f: "do_fetch (daily_params ''IBM'' (older_than_130_days t z (canned_world b))) (canned_world b) =
           (Inr b, (canned_world b)\<lparr>requests := [(query_url,
              daily_params ''IBM'' (older_than_130_days t z (canned_world b)) @ [(''apikey'', ''foo'')])]\<rparr>)"
    using do_fetch_canned [OF assms(1,2)] by (simp add: u)
  have c: "fst (clock (canned_world b)) - 130 \<le> MAXORDINAL" using canned_clock(2) [of b] by simp
  show "get_historical_price ''price:IBM:USD'' t (canned_world b) =
           historical_from_data b t ''USD''
             ((canned_world b)\<lparr>requests := [(query_url,
                daily_params ''IBM'' (older_than_130_days t z (canned_world b)) @ [(''apikey'', ''foo'')])]\<rparr>)"
    using get_historical_price_aware [OF ticker_eval(1) assms(3) canned_clock(1) c] f by simp
qed

lemma premium_notice:
  "str_contains ''premium endpoint'' (map lower_char ''Premium Endpoint'')"
proof -
  have "map lower_char ''Premium Endpoint'' = ''premium endpoint''"
    by (simp add: lower_char_def upper_case_def lower_case_def)
  then show ?thesis by simp
qed

text \<open>
  A premium notice, a body without the series, a body with another \<open>Information\<close> string
  and no series, and the series of the unit test.
\<close>

theorem historical_no_data_witness:
  "map_of [(''Information'', JStr ''Premium Endpoint'')] ''Information'' =
     Some (JStr ''Premium Endpoint'') \<and>
   str_contains ''premium endpoint'' (map lower_char ''Premium Endpoint'') \<and>
   fst (get_historical_price ''price:IBM:USD'' sunday_noon
          (canned_world (JObj [(''Information'', JStr ''Premium Endpoint'')]))) = Inr None \<and>
   logged (snd (get_historical_price ''price:IBM:USD'' sunday_noon
          (canned_world (JObj [(''Information'', JStr ''Premium Endpoint'')])))) =
     [LogInfo ''Premium endpoint API key required.''] \<and>
   map_of [(''Meta Data'', JObj [])] ''Time Series (Daily)'' = None \<and>
   map_of [(''Meta Data'', JObj [])] ''Information'' = None \<and>
   fst (get_historical_price ''price:IBM:USD'' sunday_noon
          (canned_world (JObj [(''Meta Data'', JObj [])]))) = Inr None \<and>
   logged (snd (get_historical_price ''price:IBM:USD'' sunday_noon
          (canned_world (JObj [(''Meta Data'', JObj [])])))) =
     [LogError ''Price data not found when expected: %s'' (JObj [(''Meta Data'', JObj [])])] \<and>
   map_of [(''Information'', JStr ''Rate limit'')] ''Time Series (Daily)'' = None \<and>
   map_of [(''Information'', JStr ''Rate limit'')] ''Information'' = Some (JStr ''Rate limit'') \<and>
   \<not> str_contains ''premium endpoint'' (map lower_char ''Rate limit'') \<and>
   fst (get_historical_price ''price:IBM:USD'' sunday_noon
          (canned_world (JObj [(''Information'', JStr ''Rate limit'')]))) = Inr None \<and>
   logged (snd (get_historical_price ''price:IBM:USD'' sunday_noon
          (canned_world (JObj [(''Information'', JStr ''Rate limit'')])))) =
     [LogError ''Price data not found when expected: %s''
        (JObj [(''Information'', JStr ''Rate limit'')])] \<and>
   premium_required (JObj response_tsda) = Inr False \<and>
   map_of response_tsda ''Time Series (Daily)'' \<noteq> None \<and>
   fst (get_historical_price ''price:IBM:USD'' sunday_noon (canned_world (JObj response_tsda))) \<noteq>
     Inr None \<and>
   logged (snd (get_historical_price ''price:IBM:USD'' sunday_noon
          (canned_world (JObj response_tsda)))) = []"
proof -
  let ?p = "[(''Information'', JStr ''Premium Endpoint'')]"
  let ?s = "[(''Meta Data'', JObj [])]"
  let ?wp = "(canned_world (JObj ?p))\<lparr>requests := [(query_url,
              daily_params ''IBM'' (older_than_130_days sunday_noon tzutc (canned_world (JObj ?p))) @
              [(''apikey'', ''foo'')])]\<rparr>"
  let ?ws = "(canned_world (JObj ?s))\<lparr>requests := [(query_url,
              daily_params ''IBM'' (older_than_130_days sunday_noon tzutc (canned_world (JObj ?s))) @
              [(''apikey'', ''foo'')])]\<rparr>"
  let ?i = "[(''Information'', JStr ''Rate limit'')]"
  let ?wi = "(canned_world (JObj ?i))\<lparr>requests := [(query_url,
              daily_params ''IBM'' (older_than_130_days sunday_noon tzutc (canned_world (JObj ?i))) @
              [(''apikey'', ''foo'')])]\<rparr>"
  let ?wt = "(canned_world (JObj response_tsda))\<lparr>requests := [(query_url,
              daily_params ''IBM''
                (older_than_130_days sunday_noon tzutc (canned_world (JObj response_tsda))) @
              [(''apikey'', ''foo'')])]\<rparr>"
  have lg: "logged ((canned_world b)\<lparr>requests := rs\<rparr>) = []" for b rs
    by (simp add: canned_world_def test_world_def)
  have fp: "do_fetch (daily_params ''IBM'' (older_than_130_days sunday_noon tzutc (canned_world (JObj ?p))))
              (canned_world (JObj ?p)) = (Inr (JObj ?p), ?wp)"
    by (rule canned_historical(1)) (simp_all add: sunday_fields)
  have fs: "do_fetch (daily_params ''IBM'' (older_than_130_days sunday_noon tzutc (canned_world (JObj ?s))))
              (canned_world (JObj ?s)) = (Inr (JObj ?s), ?ws)"
    by (rule canned_historical(1)) (simp_all add: sunday_fields)
  have ft: "do_fetch (daily_params ''IBM''
                (older_than_130_days sunday_noon tzutc (canned_world (JObj response_tsda))))
              (canned_world (JObj response_tsda)) = (Inr (JObj response_tsda), ?wt)"
    by (rule canned_historical(1)) (rule tsda_plain sunday_fields)+
  have p1: "map_of ?p ''Information'' = Some (JStr ''Premium Endpoint'')" by simp
  have hp: "map_of ?p ''Information'' = Some (JStr ''Premium Endpoint'') \<and>
            str_contains ''premium endpoint'' (map lower_char ''Premium Endpoint'')"
    using p1 premium_notice by (rule conjI)
  from historical_no_data
         [OF ticker_eval(1) sunday_fields(1) canned_clock fp, of "''Premium Endpoint''"]
  have "map_of ?p ''Information'' = Some (JStr ''Premium Endpoint'') \<and>
        str_contains ''premium endpoint'' (map lower_char ''Premium Endpoint'') \<longrightarrow>
          get_historical_price ''price:IBM:USD'' sunday_noon (canned_world (JObj ?p)) =
            (Inr None, logging (LogInfo ''Premium endpoint API key required.'') ?wp)"
    by (rule conjunct1)
  from this hp
  have "get_historical_price ''price:IBM:USD'' sunday_noon (canned_world (JObj ?p)) =
            (Inr None, logging (LogInfo ''Premium endpoint API key required.'') ?wp)"
    by (rule mp)
  then have rp: "fst (get_historical_price ''price:IBM:USD'' sunday_noon (canned_world (JObj ?p))) =
                   Inr None"
      "logged (snd (get_historical_price ''price:IBM:USD'' sunday_noon (canned_world (JObj ?p)))) =
         [LogInfo ''Premium endpoint API key required.'']"
    by (simp_all add: logging_def lg)
  have s1: "map_of ?s ''Time Series (Daily)'' = None" and s2: "map_of ?s ''Information'' = None"
    by simp_all
  from historical_no_data [OF ticker_eval(1) sunday_fields(1) canned_clock fs, of "[]"] s1 s2
  have "get_historical_price ''price:IBM:USD'' sunday_noon (canned_world (JObj ?s)) =
          (Inr None, logging (LogError ''Price data not found when expected: %s'' (JObj ?s)) ?ws)"
    by simp
  then have rs: "fst (get_historical_price ''price:IBM:USD'' sunday_noon (canned_world (JObj ?s))) =
                   Inr None"
      "logged (snd (get_historical_price ''price:IBM:USD'' sunday_noon (canned_world (JObj ?s)))) =
         [LogError ''Price data not found when expected: %s'' (JObj ?s)]"
    by (simp_all add: logging_def lg)
  have fi: "do_fetch (daily_params ''IBM'' (older_than_130_days sunday_noon tzutc (canned_world (JObj ?i))))
              (canned_world (JObj ?i)) = (Inr (JObj ?i), ?wi)"
    by (rule canned_historical(1)) (simp_all add: sunday_fields)
  have l: "map lower_char ''Rate limit'' = ''rate limit''"
    by (simp add: lower_char_def upper_case_def lower_case_def)
  have i1: "map_of ?i ''Time Series (Daily)'' = None"
    and i2: "map_of ?i ''Information'' = Some (JStr ''Rate limit'')"
    and i3: "\<not> str_contains ''premium endpoint'' (map lower_char ''Rate limit'')"
    by (simp_all add: l)
  from i1 i2 i3
  have hi: "map_of ?i ''Time Series (Daily)'' = None \<and>
            (map_of ?i ''Information'' = None \<or>
             map_of ?i ''Information'' = Some (JStr ''Rate limit'') \<and>
             \<not> str_contains ''premium endpoint'' (map lower_char ''Rate limit''))"
    by (intro conjI disjI2)
  from historical_no_data
         [OF ticker_eval(1) sunday_fields(1) canned_clock fi, of "''Rate limit''"]
  have "map_of ?i ''Time Series (Daily)'' = None \<and>
        (map_of ?i ''Information'' = None \<or>
         map_of ?i ''Information'' = Some (JStr ''Rate limit'') \<and>
         \<not> str_contains ''premium endpoint'' (map lower_char ''Rate limit'')) \<longrightarrow>
          get_historical_price ''price:IBM:USD'' sunday_noon (canned_world (JObj ?i)) =
            (Inr None, logging (LogError ''Price data not found when expected: %s'' (JObj ?i)) ?wi)"
    by (rule conjunct1 [OF conjunct2])
  from this hi
  have "get_historical_price ''price:IBM:USD'' sunday_noon (canned_world (JObj ?i)) =
          (Inr None, logging (LogError ''Price data not found when expected: %s'' (JObj ?i)) ?wi)"
    by (rule mp)
  then have ri: "fst (get_historical_price ''price:IBM:USD'' sunday_noon (canned_world (JObj ?i))) =
                   Inr None"
      "logged (snd (get_historical_price ''price:IBM:USD'' sunday_noon (canned_world (JObj ?i)))) =
         [LogError ''Price data not found when expected: %s'' (JObj ?i)]"
    by (simp_all add: logging_def lg)
  have t: "map_of response_tsda ''Time Series (Daily)'' \<noteq> None" by (simp add: tsda_plain)
  from historical_no_data [OF ticker_eval(1) sunday_fields(1) canned_clock ft, of "[]"]
       tsda_plain(3) t
  have rt: "fst (get_historical_price ''price:IBM:USD'' sunday_noon
                   (canned_world (JObj response_tsda))) \<noteq> Inr None"
      "logged (snd (get_historical_price ''price:IBM:USD'' sunday_noon
                   (canned_world (JObj response_tsda)))) = []"
    by (simp_all add: lg)
  show ?thesis
    by (intro conjI) (rule p1 premium_notice rp s1 s2 rs i1 i2 i3 ri tsda_plain(3) t rt)+
qed

text \<open>
  Claim C8 as worded says that a body lacking the key of the series gives \<open>None\<close> rather
  than a raised error.  A body whose \<open>Information\<close> is not a string lacks that key and
  raises: \<open>{"Information": null}\<close> ends in the \<open>AttributeError\<close> of \<open>None.lower()\<close>, and
  a body that is the JSON string \<open>"Information"\<close> in the \<open>TypeError\<close> of a string indexed
  by a string; nothing is logged.
\<close>

theorem historical_information_not_a_string:
  "map_of [(''Information'', JNull)] ''Time Series (Daily)'' = None \<and>
   get_historical_price ''price:IBM:USD'' sunday_noon
     (canned_world (JObj [(''Information'', JNull)])) =
     (Inl AttributeError,
      (canned_world (JObj [(''Information'', JNull)]))\<lparr>requests := [(query_url,
         daily_params ''IBM'' False @ [(''apikey'', ''foo'')])]\<rparr>) \<and>
   py_in ''Time Series (Daily)'' (JStr ''Information'') = Inr False \<and>
   get_historical_price ''price:IBM:USD'' sunday_noon
     (canned_world (JStr ''Information'')) =
     (Inl TypeError,
      (canned_world (JStr ''Information''))\<lparr>requests := [(query_url,
         daily_params ''IBM'' False @ [(''apikey'', ''foo'')])]\<rparr>)"
proof -
  have n: "py_in ''Note'' (JObj [(''Information'', JNull)]) = Inr False"
    "py_in ''Error Message'' (JObj [(''Information'', JNull)]) = Inr False"
    "py_in ''Note'' (JStr ''Information'') = Inr False"
    "py_in ''Error Message'' (JStr ''Information'') = Inr False"
    by simp_all
  have a: "get_historical_price ''price:IBM:USD'' sunday_noon
     (canned_world (JObj [(''Information'', JNull)])) =
     (Inl AttributeError,
      (canned_world (JObj [(''Information'', JNull)]))\<lparr>requests := [(query_url,
         daily_params ''IBM'' False @ [(''apikey'', ''foo'')])]\<rparr>)"
    using canned_historical(2) [OF n(1,2) sunday_fields(1)] clock_eval(2)
    by (simp add: historical_from_data_def premium_required_def)
  have b: "get_historical_price ''price:IBM:USD'' sunday_noon
     (canned_world (JStr ''Information'')) =
     (Inl TypeError,
      (canned_world (JStr ''Information''))\<lparr>requests := [(query_url,
         daily_params ''IBM'' False @ [(''apikey'', ''foo'')])]\<rparr>)"
    using canned_historical(2) [OF n(3,4) sunday_fields(1)] clock_eval(2)
    by (simp add: historical_from_data_def premium_required_def)
  have c: "py_in ''Time Series (Daily)'' (JStr ''Information'') = Inr False" by simp
  have d: "map_of [(''Information'', JNull)] ''Time Series (Daily)'' = None" by simp
  show ?thesis by (intro conjI) (rule a b c d)+
qed

text \<open>
  With the clock at 2025-04-08, a lookup for 2024-01-01 asks for \<open>full\<close> and one for
  2025-04-06 for \<open>compact\<close>.
\<close>

theorem historical_output_size_witness:
  "parse_ticker latin1_word ''price:IBM:USD'' = Inr (''price'', ''IBM'', ''USD'') \<and>
   environ (canned_world (JObj response_tsda)) ''ALPHAVANTAGE_API_KEY'' = Some ''foo'' \<and>
   older_than_130_days new_year_2024 tzutc (canned_world (JObj response_tsda)) \<and>
   requests (snd (get_historical_price ''price:IBM:USD'' new_year_2024
                    (canned_world (JObj response_tsda)))) =
     [(query_url, [(''function'', ''TIME_SERIES_DAILY''), (''symbol'', ''IBM''),
                   (''outputSize'', ''full''), (''apikey'', ''foo'')])] \<and>
   \<not> older_than_130_days sunday_noon tzutc (canned_world (JObj response_tsda)) \<and>
   requests (snd (get_historical_price ''price:IBM:USD'' sunday_noon
                    (canned_world (JObj response_tsda)))) =
     [(query_url, [(''function'', ''TIME_SERIES_DAILY''), (''symbol'', ''IBM''),
                   (''outputSize'', ''compact''), (''apikey'', ''foo'')])] \<and>
   map_of [(''function'', ''TIME_SERIES_DAILY''), (''symbol'', ''IBM''),
           (''outputSize'', ''compact''), (''apikey'', ''foo'')] ''outputSize'' = Some ''compact''"
proof -
  let ?w = "canned_world (JObj response_tsda)"
  have n: "tzinfo new_year_2024 = Some tzutc" by (simp add: new_year_2024_def)
  have r1: "requests (snd (get_historical_price ''price:IBM:USD'' new_year_2024 ?w)) =
     [(query_url, [(''function'', ''TIME_SERIES_DAILY''), (''symbol'', ''IBM''),
                   (''outputSize'', ''full''), (''apikey'', ''foo'')])]"
    using canned_historical(2) [OF tsda_plain(1,2) n]
    by (simp add: historical_from_data_requests clock_eval daily_params_def)
  have r2: "requests (snd (get_historical_price ''price:IBM:USD'' sunday_noon ?w)) =
     [(query_url, [(''function'', ''TIME_SERIES_DAILY''), (''symbol'', ''IBM''),
                   (''outputSize'', ''compact''), (''apikey'', ''foo'')])]"
    using canned_historical(2) [OF tsda_plain(1,2) sunday_fields(1)]
    by (simp add: historical_from_data_requests clock_eval daily_params_def)
  from historical_output_size [of ?w "''price:IBM:USD''" sunday_noon "''IBM''" "''USD''" tzutc "''foo''"]
       r1 r2 ticker_eval(3) clock_eval [of "JObj response_tsda"]
  show ?thesis by (simp add: canned_world_sel)
qed

lemma fx_plain:
  "py_in ''Note'' (JObj (response_fx zone)) = Inr False"
  "py_in ''Error Message'' (JObj (response_fx zone)) = Inr False"
  by (simp_all add: response_fx_def)

lemma fx_fetch:
  "do_fetch (fx_params ''USD'' ''CHF'') (canned_world (JObj (response_fx zone))) =
     (Inr (JObj (response_fx zone)),
      (canned_world (JObj (response_fx zone)))
        \<lparr>requests := [(query_url, AList.update ''apikey'' ''foo'' (fx_params ''USD'' ''CHF''))]\<rparr>)"
  by (rule do_fetch_canned) (rule fx_plain)+

lemma fx_latest:
  "get_latest_price ''fx:USD:CHF'' (canned_world (JObj (response_fx zone))) =
     (case test_gettz (JStr zone) of
        Inl e \<Rightarrow> (Inl e, (canned_world (JObj (response_fx zone)))
                \<lparr>requests := [(query_url, AList.update ''apikey'' ''foo'' (fx_params ''USD'' ''CHF''))]\<rparr>)
      | Inr found \<Rightarrow>
          (Inr \<lparr>price = ''108.94000000'',
                time = \<lparr>ordinal = 737842, usec = 73945000000, tzinfo = found\<rparr>,
                quote_currency = ''CHF''\<rparr>,
           (canned_world (JObj (response_fx zone)))
             \<lparr>requests := [(query_url, AList.update ''apikey'' ''foo'' (fx_params ''USD'' ''CHF''))]\<rparr>))"
proof -
  have "get_latest_price ''fx:USD:CHF'' (canned_world (JObj (response_fx zone))) =
     (case gettz ((canned_world (JObj (response_fx zone)))
        \<lparr>requests := [(query_url, AList.update ''apikey'' ''foo'' (fx_params ''USD'' ''CHF''))]\<rparr>)
          (JStr zone) of
        Inl e \<Rightarrow> (Inl e, (canned_world (JObj (response_fx zone)))
                \<lparr>requests := [(query_url, AList.update ''apikey'' ''foo'' (fx_params ''USD'' ''CHF''))]\<rparr>)
      | Inr found \<Rightarrow>
          (Inr \<lparr>price = ''108.94000000'',
                time = \<lparr>ordinal = 737842, usec = 73945000000, tzinfo = None\<rparr>\<lparr>tzinfo := found\<rparr>,
                quote_currency = ''CHF''\<rparr>,
           (canned_world (JObj (response_fx zone)))
             \<lparr>requests := [(query_url, AList.update ''apikey'' ''foo'' (fx_params ''USD'' ''CHF''))]\<rparr>))"
  proof (rule get_latest_price_fx [OF ticker_eval(2) fx_fetch])
    show "py_getitem (JObj (response_fx zone)) ''Realtime Currency Exchange Rate'' =
            Inr (JObj [(''5. Exchange Rate'', JStr ''108.94000000''),
                       (''6. Last Refreshed'', JStr ''2021-02-21 20:32:25''),
                       (''7. Time Zone'', JStr zone)])"
      by (simp add: response_fx_def)
    show "py_getitem (JObj [(''5. Exchange Rate'', JStr ''108.94000000''),
                       (''6. Last Refreshed'', JStr ''2021-02-21 20:32:25''),
                       (''7. Time Zone'', JStr zone)]) ''5. Exchange Rate'' =
            Inr (JStr ''108.94000000'')" by simp
    show "py_getitem (JObj [(''5. Exchange Rate'', JStr ''108.94000000''),
                       (''6. Last Refreshed'', JStr ''2021-02-21 20:32:25''),
                       (''7. Time Zone'', JStr zone)]) ''6. Last Refreshed'' =
            Inr (JStr ''2021-02-21 20:32:25'')" by simp
    show "py_getitem (JObj [(''5. Exchange Rate'', JStr ''108.94000000''),
                       (''6. Last Refreshed'', JStr ''2021-02-21 20:32:25''),
                       (''7. Time Zone'', JStr zone)]) ''7. Time Zone'' =
            Inr (JStr zone)" by simp
    show "Decimal ((canned_world (JObj (response_fx zone)))
        \<lparr>requests := [(query_url, AList.update ''apikey'' ''foo'' (fx_params ''USD'' ''CHF''))]\<rparr>)
          (JStr ''108.94000000'') = Inr ''108.94000000''"
      by (simp add: canned_world_lib test_Decimal_def)
    show "parse ((canned_world (JObj (response_fx zone)))
        \<lparr>requests := [(query_url, AList.update ''apikey'' ''foo'' (fx_params ''USD'' ''CHF''))]\<rparr>)
          (JStr ''2021-02-21 20:32:25'') =
          Inr \<lparr>ordinal = 737842, usec = 73945000000, tzinfo = None\<rparr>"
      by (simp add: canned_world_lib test_parse_def)
  qed
  then show ?thesis by (simp add: canned_world_lib split: sum.split)
qed

text \<open>
  The claim C3 as stated fails on a zone name that \<open>gettz\<close> does not know: the price
  comes back with a timestamp that has no zone.
\<close>

theorem latest_fx_unresolved_zone:
  "test_gettz (JStr ''Mars/Olympus'') = Inr None \<and>
   fst (get_latest_price ''fx:USD:CHF'' (canned_world (JObj (response_fx ''Mars/Olympus'')))) =
     Inr \<lparr>price = ''108.94000000'',
          time = \<lparr>ordinal = 737842, usec = 73945000000, tzinfo = None\<rparr>,
          quote_currency = ''CHF''\<rparr>"
  by (simp add: fx_latest) (simp add: test_gettz_def)

text \<open>The exchange rate of the unit test, with the zone \<open>UTC\<close> and with an unknown one.\<close>

theorem latest_fx_time_zone_witness:
  "parse_ticker latin1_word ''fx:USD:CHF'' = Inr (''fx'', ''USD'', ''CHF'') \<and>
   test_gettz (JStr ''UTC'') = Inr (Some tzutc) \<and>
   fst (get_latest_price ''fx:USD:CHF'' (canned_world (JObj (response_fx ''UTC'')))) =
     Inr \<lparr>price = ''108.94000000'',
          time = \<lparr>ordinal = 737842, usec = 73945000000, tzinfo = Some tzutc\<rparr>,
          quote_currency = ''CHF''\<rparr> \<and>
   test_gettz (JStr ''Mars/Olympus'') = Inr None \<and>
   fst (get_latest_price ''fx:USD:CHF'' (canned_world (JObj (response_fx ''Mars/Olympus'')))) =
     Inr \<lparr>price = ''108.94000000'',
          time = \<lparr>ordinal = 737842, usec = 73945000000, tzinfo = None\<rparr>,
          quote_currency = ''CHF''\<rparr>"
proof -
  have g: "py_getitem (JObj (response_fx zone)) ''Realtime Currency Exchange Rate'' =
            Inr (JObj [(''5. Exchange Rate'', JStr ''108.94000000''),
                       (''6. Last Refreshed'', JStr ''2021-02-21 20:32:25''),
                       (''7. Time Zone'', JStr zone)])" for zone
    by (simp add: response_fx_def)
  have r: "py_getitem (JObj [(''5. Exchange Rate'', JStr ''108.94000000''),
                       (''6. Last Refreshed'', JStr ''2021-02-21 20:32:25''),
                       (''7. Time Zone'', JStr zone)]) ''5. Exchange Rate'' =
            Inr (JStr ''108.94000000'')"
    and l: "py_getitem (JObj [(''5. Exchange Rate'', JStr ''108.94000000''),
                       (''6. Last Refreshed'', JStr ''2021-02-21 20:32:25''),
                       (''7. Time Zone'', JStr zone)]) ''6. Last Refreshed'' =
            Inr (JStr ''2021-02-21 20:32:25'')"
    and z: "py_getitem (JObj [(''5. Exchange Rate'', JStr ''108.94000000''),
                       (''6. Last Refreshed'', JStr ''2021-02-21 20:32:25''),
                       (''7. Time Zone'', JStr zone)]) ''7. Time Zone'' =
            Inr (JStr zone)" for zone
    by simp_all
  have d: "Decimal ((canned_world b)\<lparr>requests := rs\<rparr>) (JStr ''108.94000000'') =
             Inr ''108.94000000''" for b rs
    by (simp add: canned_world_lib test_Decimal_def)
  have p: "parse ((canned_world b)\<lparr>requests := rs\<rparr>) (JStr ''2021-02-21 20:32:25'') =
          Inr \<lparr>ordinal = 737842, usec = 73945000000, tzinfo = None\<rparr>" for b rs
    by (simp add: canned_world_lib test_parse_def)
  have u: "test_gettz (JStr ''UTC'') = Inr (Some tzutc)"
    and m: "test_gettz (JStr ''Mars/Olympus'') = Inr None"
    by (simp_all add: test_gettz_def)
  from latest_fx_time_zone [OF ticker_eval(2) fx_fetch g r d l p z, of "''UTC''" tzutc] u
  have a: "fst (get_latest_price ''fx:USD:CHF'' (canned_world (JObj (response_fx ''UTC'')))) =
     Inr \<lparr>price = ''108.94000000'',
          time = \<lparr>ordinal = 737842, usec = 73945000000, tzinfo = Some tzutc\<rparr>,
          quote_currency = ''CHF''\<rparr>"
    by (simp add: canned_world_lib)
  from latest_fx_time_zone [OF ticker_eval(2) fx_fetch g r d l p z, of "''Mars/Olympus''"] m
  have b: "fst (get_latest_price ''fx:USD:CHF'' (canned_world (JObj (response_fx ''Mars/Olympus'')))) =
     Inr \<lparr>price = ''108.94000000'',
          time = \<lparr>ordinal = 737842, usec = 73945000000, tzinfo = None\<rparr>,
          quote_currency = ''CHF''\<rparr>"
    by (simp add: canned_world_lib)
  show ?thesis
    by (intro conjI) (rule ticker_eval(4) u a m b)+
qed

end
